theory Spec2Isabelle
  imports Main
begin

section \<open>Data model\<close>

text \<open>
  The server agent of the MariaDB monitor (class \<open>MariaDBServer\<close>). Durations and points
  of the steady clock are integers counting nanoseconds, as \<open>maxbase::Duration\<close> does;
  the 64-bit range of the counters is not modelled (integers are unbounded here).
\<close>

type_synonym Duration = int

definition seconds :: "int \<Rightarrow> Duration" where
  "seconds n = n * 1000000000"


datatype slave_io_running_t = SLAVE_IO_YES | SLAVE_IO_CONNECTING | SLAVE_IO_NO

datatype server_type = UNKNOWN | NORMAL | BINLOG_ROUTER

datatype log_level = LOG_ERROR | LOG_WARNING | LOG_NOTICE | LOG_DEBUG

text \<open>A GTID triple is (domain, server id, sequence).\<close>

type_synonym Gtid = "nat \<times> nat \<times> nat"
type_synonym GtidList = "Gtid list"


definition SERVER_ID_UNKNOWN :: int where
  "SERVER_ID_UNKNOWN = -1"

definition MXS_RLAG_UNDEFINED :: int where
  "MXS_RLAG_UNDEFINED = -1"

definition INT_MAX :: int where
  "INT_MAX = 2147483647"

record SlaveStatus =
  owning_server :: string
  seen_connected :: bool
  name :: string
  master_server_id :: int
  master_host :: string
  master_port :: int
  slave_io_running :: slave_io_running_t
  slave_sql_running :: bool
  gtid_io_pos :: GtidList
  last_error :: string
  seconds_behind_master :: int
  received_heartbeats :: int
  last_data_time :: int

type_synonym SlaveStatusArray = "SlaveStatus list"

text \<open>
  Modelled from the spec: the default constructor of \<open>SlaveStatus\<close>, whose class
  declaration is not among the sources. Section 3 gives \<open>UNKNOWN = -1\<close> for the master
  server id and \<open>UNDEFINED = -1\<close> for the lag; \<open>seen_connected\<close> is a latch, so it
  starts false; \<open>last_data_time\<close> is the time of construction (the comment in
  \<open>do_show_slave_status\<close>: "When the new row was created, 'last_data_time' was set to
  the current time").
\<close>

definition SlaveStatus_new :: "int \<Rightarrow> SlaveStatus" where
  "SlaveStatus_new now =
     \<lparr> owning_server = [], seen_connected = False, name = [],
       master_server_id = SERVER_ID_UNKNOWN, master_host = [], master_port = 0,
       slave_io_running = SLAVE_IO_NO, slave_sql_running = False, gtid_io_pos = [],
       last_error = [], seconds_behind_master = MXS_RLAG_UNDEFINED,
       received_heartbeats = 0, last_data_time = now \<rparr>"

text \<open>
  Modelled from the spec: equality of \<open>GtidList\<close> values (\<open>operator==\<close>, not among the
  sources). Section 4.1: "Equality is element-wise after sorting by domain."
\<close>

definition GtidList_eq :: "GtidList \<Rightarrow> GtidList \<Rightarrow> bool" where
  "GtidList_eq a b = (sort_key fst a = sort_key fst b)"


text \<open>
  A result set (class \<open>QueryResult\<close>, not among the sources) is taken by its interface:
  the column count, the index of a column name (negative when absent) and the rows,
  each read through \<open>get_string\<close>, \<open>get_uint\<close> and \<open>get_bool\<close> at a column index.
\<close>

record ResultRow =
  get_string :: "int \<Rightarrow> string"
  get_uint :: "int \<Rightarrow> int"
  get_bool :: "int \<Rightarrow> bool"

record QueryResult =
  get_col_count :: int
  get_col_index :: "string \<Rightarrow> int"
  result_rows :: "ResultRow list"

text \<open>
  What the backend answers to one statement: whether the query call succeeded, the
  stored result set (\<open>None\<close> for the null pointer of \<open>mysql_store_result\<close>), the
  connector's error number and message, and how long the call took.
\<close>

record reply =
  r_ok :: bool
  r_result :: "QueryResult option"
  r_errno :: nat
  r_error :: string
  r_took :: nat

text \<open>
  Everything the functions use that is not among the sources is a field of
  \<open>externals\<close>: the backend (its reply to a statement, given how many statements the
  connection has carried before), the connector's classification of network errors,
  parsers and printers of \<open>SlaveStatus\<close> and \<open>GtidList\<close>, the copy test of a slave
  connection, the rendering of a duration by \<open>%.1f\<close>, and whether the build defines
  \<open>SS_DEBUG\<close>.
\<close>

record externals =
  backend :: "nat \<Rightarrow> string \<Rightarrow> reply"
  mxs_mysql_is_net_error :: "nat \<Rightarrow> bool"
  slave_io_from_string :: "string \<Rightarrow> slave_io_running_t"
  GtidList_from_string :: "string \<Rightarrow> GtidList"
  should_be_copied :: "SlaveStatus \<Rightarrow> bool \<times> string"
  to_short_string :: "SlaveStatus \<Rightarrow> string"
  printf_secs :: "Duration \<Rightarrow> string"
  SS_DEBUG :: bool

text \<open>Error numbers of the MariaDB server (\<open>mysqld_error.h\<close>).\<close>

definition ER_STATEMENT_TIMEOUT :: nat where
  "ER_STATEMENT_TIMEOUT = 1969"




record Capabilities =
  basic_support :: bool
  gtid :: bool
  max_statement_time :: bool

record ReplicationSettings =
  gtid_strict_mode :: bool
  log_bin :: bool
  log_slave_updates :: bool

text \<open>
  The agent, together with what it shares with its surroundings: the fields of the
  \<open>SERVER\<close> record it points to (name, address, port, \<open>master_id\<close>), the read timeout
  of its connection, and the observable effects of its calls: the steady clock, the
  statements sent with the time of sending, the calls of \<open>sleep_for\<close> with the time of
  the call, the log sink, and the JSON error accumulator that \<open>error_out\<close> of an
  operation points to.
\<close>

record MariaDBServer =
  server_name :: string
  server_address :: string
  server_port :: int
  server_master_id :: int
  connector_timeout :: int
  m_server_id :: int
  m_slave_status :: SlaveStatusArray
  m_topology_changed :: bool
  m_capabilities :: Capabilities
  m_srv_type :: server_type
  m_rpl_settings :: ReplicationSettings
  m_gtid_current_pos :: GtidList
  m_gtid_binlog_pos :: GtidList
  clock :: int
  sent :: "(int \<times> string) list"
  sleeps :: "(int \<times> Duration) list"
  log_sink :: "(log_level \<times> string) list"
  json_errors :: "string list"

record GeneralOpData =
  time_remaining :: Duration
  replication_user :: string
  replication_password :: string
  replication_ssl :: bool

section \<open>Printing, logging, the connection\<close>

definition digit_char :: "nat \<Rightarrow> char" where
  "digit_char d = char_of (48 + d)"

fun show_nat :: "nat \<Rightarrow> string" where
  "show_nat n = (if n < 10 then [digit_char n] else show_nat (n div 10) @ [digit_char (n mod 10)])"

declare show_nat.simps [simp del]

definition show_int :: "int \<Rightarrow> string" where
  "show_int i = (if i < 0 then CHR ''-'' # show_nat (nat (- i)) else show_nat (nat i))"


definition narrow_int :: "int \<Rightarrow> int" where
  "narrow_int v = (v + 2147483648) mod 4294967296 - 2147483648"

definition mxs_log :: "log_level \<Rightarrow> string \<Rightarrow> MariaDBServer \<Rightarrow> MariaDBServer" where
  "mxs_log lvl msg s = s\<lparr>log_sink := log_sink s @ [(lvl, msg)]\<rparr>"

text \<open>
  Modelled from the spec: the macro \<open>PRINT_MXS_JSON_ERROR\<close> (not among the sources).
  Section 6: "operations accept a JSON error accumulator; each failure appends one
  object with a human message"; section 7: "all failures surface through the logs and
  the JSON error channel". The message goes to the log as an error and is appended to
  the accumulator.
\<close>

definition PRINT_MXS_JSON_ERROR :: "string \<Rightarrow> MariaDBServer \<Rightarrow> MariaDBServer" where
  "PRINT_MXS_JSON_ERROR msg s = (mxs_log LOG_ERROR msg s)\<lparr>json_errors := json_errors s @ [msg]\<rparr>"

definition quoted :: "string \<Rightarrow> string" where
  "quoted str = [CHR 0x27] @ str @ [CHR 0x27]"

text \<open>
  One statement on the connection: it is recorded with the time of sending, the backend
  answers, and the clock advances by the time the call took.
\<close>

definition mysql_send :: "externals \<Rightarrow> string \<Rightarrow> MariaDBServer \<Rightarrow> reply \<times> MariaDBServer" where
  "mysql_send ext query s =
     (let r = backend ext (length (sent s)) query
      in (r, s\<lparr>sent := sent s @ [(clock s, query)], clock := clock s + int (r_took r)\<rparr>))"

text \<open>\<open>sleep_for\<close> returns at once on a duration that is not positive.\<close>

definition sleep_for :: "Duration \<Rightarrow> MariaDBServer \<Rightarrow> MariaDBServer" where
  "sleep_for d s = s\<lparr>sleeps := sleeps s @ [(clock s, d)], clock := clock s + max 0 d\<rparr>"

text \<open>
  \<open>execute_query\<close>: the result set, or the error message and number. The out-parameters
  are written on failure only.
\<close>

definition execute_query ::
  "externals \<Rightarrow> string \<Rightarrow> MariaDBServer \<Rightarrow> (string \<times> nat + QueryResult) \<times> MariaDBServer" where
  "execute_query ext query s =
     (let (r, s') = mysql_send ext query s
      in case (if r_ok r then r_result r else None) of
           Some res \<Rightarrow> (Inr res, s')
         | None \<Rightarrow> (Inl (''Query '' @ [CHR 0x27] @ query @ [CHR 0x27] @ '' failed: ''
                          @ [CHR 0x27] @ r_error r @ [CHR 0x27] @ ''.'', r_errno r), s'))"

section \<open>Reading the slave status\<close>

definition compare_rows :: "SlaveStatus \<Rightarrow> SlaveStatus \<Rightarrow> bool" where
  "compare_rows lhs rhs = (master_host rhs = master_host lhs \<and> master_port rhs = master_port lhs)"

definition sstatus_find_previous_row ::
  "MariaDBServer \<Rightarrow> SlaveStatus \<Rightarrow> nat \<Rightarrow> SlaveStatus option" where
  "sstatus_find_previous_row s search_row guess_ind =
     (if guess_ind < length (m_slave_status s)
         \<and> compare_rows (m_slave_status s ! guess_ind) search_row
      then Some (m_slave_status s ! guess_ind)
      else find (\<lambda>old_row. compare_rows old_row search_row) (m_slave_status s))"

definition rows_differ :: "SlaveStatus \<Rightarrow> SlaveStatus \<Rightarrow> bool" where
  "rows_differ new_row old_row =
     (slave_io_running new_row \<noteq> slave_io_running old_row
      \<or> slave_sql_running new_row \<noteq> slave_sql_running old_row
      \<or> master_host new_row \<noteq> master_host old_row \<or> master_port new_row \<noteq> master_port old_row
      \<or> master_server_id new_row \<noteq> master_server_id old_row)"

text \<open>The loop over the index stops at the first pair of rows that differ.\<close>

fun topology_loop :: "SlaveStatusArray \<Rightarrow> SlaveStatusArray \<Rightarrow> bool" where
  "topology_loop (old_row # olds) (new_row # news) =
     (if rows_differ new_row old_row then False else topology_loop olds news)"
| "topology_loop olds news = True"

definition sstatus_array_topology_equal :: "MariaDBServer \<Rightarrow> SlaveStatusArray \<Rightarrow> bool" where
  "sstatus_array_topology_equal s new_slave_status =
     (if length (m_slave_status s) \<noteq> length new_slave_status then False
      else topology_loop (m_slave_status s) new_slave_status)"

text \<open>The indices of the columns that \<open>do_show_slave_status\<close> reads.\<close>

record status_columns =
  i_master_host :: int
  i_master_port :: int
  i_slave_io_running :: int
  i_slave_sql_running :: int
  i_master_server_id :: int
  i_last_io_errno :: int
  i_last_io_error :: int
  i_last_sql_error :: int
  i_seconds_behind_master :: int
  i_connection_name :: int
  i_slave_rec_hbs :: int
  i_slave_hb_period :: int
  i_using_gtid :: int
  i_gtid_io_pos :: int

text \<open>
  The body of the loop over the rows, in two steps: the fields read from the result,
  then the comparison with the row of the previous tick.
\<close>

definition read_row ::
  "externals \<Rightarrow> MariaDBServer \<Rightarrow> status_columns \<Rightarrow> bool \<Rightarrow> ResultRow \<Rightarrow> SlaveStatus" where
  "read_row ext s c all_slaves_status row =
     (let new_row = SlaveStatus_new (clock s);
          new_row = new_row\<lparr>owning_server := server_name s\<rparr>;
          new_row = new_row\<lparr>master_host := get_string row (i_master_host c)\<rparr>;
          new_row = new_row\<lparr>master_port := narrow_int (get_uint row (i_master_port c))\<rparr>;
          last_io_error = get_string row (i_last_io_error c);
          last_sql_error = get_string row (i_last_sql_error c);
          new_row = new_row\<lparr>last_error :=
                      (if last_io_error \<noteq> [] then last_io_error else last_sql_error)\<rparr>;
          new_row = new_row\<lparr>slave_io_running :=
                      slave_io_from_string ext (get_string row (i_slave_io_running c))\<rparr>;
          new_row = new_row\<lparr>slave_sql_running :=
                      (get_string row (i_slave_sql_running c) = ''Yes'')\<rparr>;
          new_row = new_row\<lparr>master_server_id := get_uint row (i_master_server_id c)\<rparr>;
          rlag = get_uint row (i_seconds_behind_master c);
          new_row = new_row\<lparr>seconds_behind_master :=
                      (if rlag < 0 then MXS_RLAG_UNDEFINED
                       else if rlag > INT_MAX then INT_MAX else rlag)\<rparr>
      in if all_slaves_status
         then (let new_row = new_row\<lparr>name := get_string row (i_connection_name c)\<rparr>;
                   new_row = new_row\<lparr>received_heartbeats := get_uint row (i_slave_rec_hbs c)\<rparr>;
                   using_gtid = get_string row (i_using_gtid c);
                   gtid_io_pos_str = get_string row (i_gtid_io_pos c)
               in if gtid_io_pos_str \<noteq> []
                     \<and> (using_gtid = ''Current_Pos'' \<or> using_gtid = ''Slave_Pos'')
                  then new_row\<lparr>gtid_io_pos := GtidList_from_string ext gtid_io_pos_str\<rparr>
                  else new_row)
         else new_row)"

definition build_row ::
  "externals \<Rightarrow> MariaDBServer \<Rightarrow> status_columns \<Rightarrow> bool \<Rightarrow> nat \<Rightarrow> ResultRow \<Rightarrow> SlaveStatus" where
  "build_row ext s c all_slaves_status ind row =
     (let new_row = read_row ext s c all_slaves_status row;
          old_row = sstatus_find_previous_row s new_row ind;
          new_row =
            (case old_row of
               Some old \<Rightarrow>
                 if received_heartbeats new_row = received_heartbeats old
                    \<and> GtidList_eq (gtid_io_pos new_row) (gtid_io_pos old)
                 then new_row\<lparr>last_data_time := last_data_time old\<rparr>
                 else new_row
             | None \<Rightarrow> new_row)
      in if slave_io_running new_row = SLAVE_IO_YES
         then new_row\<lparr>seen_connected := True\<rparr>
         else if slave_io_running new_row = SLAVE_IO_CONNECTING \<and> old_row \<noteq> None
         then (if master_server_id new_row = master_server_id (the old_row)
                  \<and> seen_connected (the old_row)
               then new_row\<lparr>seen_connected := True\<rparr>
               else new_row)
         else new_row)"

text \<open>
  The loop \<open>while (result->next_row())\<close>: the guess index of a row is the size of the
  new array so far.
\<close>

fun build_rows ::
  "externals \<Rightarrow> MariaDBServer \<Rightarrow> status_columns \<Rightarrow> bool \<Rightarrow> SlaveStatusArray \<Rightarrow> ResultRow list
     \<Rightarrow> SlaveStatusArray" where
  "build_rows ext s c all_slaves_status slave_status_new [] = slave_status_new"
| "build_rows ext s c all_slaves_status slave_status_new (row # rest) =
     build_rows ext s c all_slaves_status
       (slave_status_new @ [build_row ext s c all_slaves_status (length slave_status_new) row])
       rest"

definition INVALID_DATA :: "string \<Rightarrow> string" where
  "INVALID_DATA query = [CHR 0x27] @ query @ [CHR 0x27] @ '' returned invalid data.''"

text \<open>
  \<open>do_show_slave_status\<close> after the query has been chosen: \<open>columns\<close> is the expected
  column count.
\<close>

definition read_slave_status ::
  "externals \<Rightarrow> int \<Rightarrow> bool \<Rightarrow> string \<Rightarrow> string \<Rightarrow> MariaDBServer \<Rightarrow> bool \<times> string \<times> MariaDBServer" where
  "read_slave_status ext columns all_slaves_status query errmsg s =
     (case execute_query ext query s of
        (Inl (msg, errnum), s1) \<Rightarrow> (False, msg, s1)
      | (Inr result, s1) \<Rightarrow>
          if get_col_count result < columns
          then (False, errmsg,
                mxs_log LOG_ERROR
                  ([CHR 0x27] @ query @ [CHR 0x27]
                   @ '' returned less than the expected amount of columns. Expected ''
                   @ show_int columns @ '' columns, got '' @ show_int (get_col_count result) @ ''.'')
                  s1)
          else
            (let c = \<lparr> i_master_host = get_col_index result ''Master_Host'',
                       i_master_port = get_col_index result ''Master_Port'',
                       i_slave_io_running = get_col_index result ''Slave_IO_Running'',
                       i_slave_sql_running = get_col_index result ''Slave_SQL_Running'',
                       i_master_server_id = get_col_index result ''Master_Server_Id'',
                       i_last_io_errno = get_col_index result ''Last_IO_Errno'',
                       i_last_io_error = get_col_index result ''Last_IO_Error'',
                       i_last_sql_error = get_col_index result ''Last_SQL_Error'',
                       i_seconds_behind_master = get_col_index result ''Seconds_Behind_Master'',
                       i_connection_name = -1, i_slave_rec_hbs = -1, i_slave_hb_period = -1,
                       i_using_gtid = -1, i_gtid_io_pos = -1 \<rparr>
             in if i_master_host c < 0 \<or> i_master_port c < 0 \<or> i_slave_io_running c < 0
                   \<or> i_slave_sql_running c < 0 \<or> i_master_server_id c < 0 \<or> i_last_io_errno c < 0
                   \<or> i_last_io_error c < 0 \<or> i_last_sql_error c < 0
                   \<or> i_seconds_behind_master c < 0
                then (False, errmsg, mxs_log LOG_ERROR (INVALID_DATA query) s1)
                else
                  (let c = (if all_slaves_status
                            then c\<lparr> i_connection_name := get_col_index result ''Connection_name'',
                                    i_slave_rec_hbs := get_col_index result ''Slave_received_heartbeats'',
                                    i_slave_hb_period := get_col_index result ''Slave_heartbeat_period'',
                                    i_using_gtid := get_col_index result ''Using_Gtid'',
                                    i_gtid_io_pos := get_col_index result ''Gtid_IO_Pos'' \<rparr>
                            else c)
                   in if all_slaves_status
                         \<and> (i_connection_name c < 0 \<or> i_slave_rec_hbs c < 0 \<or> i_slave_hb_period c < 0
                            \<or> i_using_gtid c < 0 \<or> i_gtid_io_pos c < 0)
                      then (False, errmsg, mxs_log LOG_ERROR (INVALID_DATA query) s1)
                      else
                        (let slave_status_new =
                               build_rows ext s1 c all_slaves_status [] (result_rows result);
                             s2 = (if \<not> sstatus_array_topology_equal s1 slave_status_new
                                   then s1\<lparr>m_topology_changed := True\<rparr> else s1)
                         in (True, errmsg, s2\<lparr>m_slave_status := slave_status_new\<rparr>)))))"

definition do_show_slave_status ::
  "externals \<Rightarrow> string \<Rightarrow> MariaDBServer \<Rightarrow> bool \<times> string \<times> MariaDBServer" where
  "do_show_slave_status ext errmsg s =
     (if gtid (m_capabilities s) \<or> m_srv_type s = BINLOG_ROUTER
      then read_slave_status ext 42 True ''SHOW ALL SLAVES STATUS;'' errmsg s
      else if basic_support (m_capabilities s)
      then read_slave_status ext 40 False ''SHOW SLAVE STATUS;'' errmsg s
      else (False, errmsg, s))"

definition update_slave_status ::
  "externals \<Rightarrow> string \<Rightarrow> MariaDBServer \<Rightarrow> bool \<times> string \<times> MariaDBServer" where
  "update_slave_status ext errmsg s =
     (case do_show_slave_status ext errmsg s of
        (rval, errmsg', s') \<Rightarrow>
          if rval
          then (rval, errmsg',
                s'\<lparr>server_master_id :=
                     (if m_slave_status s' \<noteq> [] then master_server_id (hd (m_slave_status s'))
                      else SERVER_ID_UNKNOWN)\<rparr>)
          else (rval, errmsg', s'))"


section \<open>Commands with a time limit\<close>

datatype QueryRetryMode = ENABLED | DISABLED

text \<open>
  \<open>execute_cmd_ex\<close>: a statement that must not return data. The error message and
  number are out-parameters: they come in with the caller's values and are written on
  failure only (the number only when the query itself failed). Both retry modes are one
  exchange with the backend here; the retries of \<open>mxs_mysql_query\<close> are inside the
  connector layer.
\<close>

definition execute_cmd_ex ::
  "externals \<Rightarrow> string \<Rightarrow> QueryRetryMode \<Rightarrow> string \<Rightarrow> nat \<Rightarrow> MariaDBServer
     \<Rightarrow> (bool \<times> string \<times> nat) \<times> MariaDBServer" where
  "execute_cmd_ex ext cmd mode errmsg errnum s =
     (let (r, s') = (if mode = ENABLED then mysql_send ext cmd s else mysql_send ext cmd s)
      in if r_ok r
         then (case r_result r of
                 None \<Rightarrow> ((True, errmsg, errnum), s')
               | Some result \<Rightarrow>
                   ((False,
                     ''Query '' @ quoted cmd @ '' on '' @ quoted (server_name s) @ '' returned ''
                     @ show_int (get_col_count result) @ '' columns and ''
                     @ show_int (int (length (result_rows result)))
                     @ '' rows of data when none was expected.'', errnum), s'))
         else ((False,
                ''Query '' @ quoted cmd @ '' failed on '' @ quoted (server_name s) @ '': ''
                @ quoted (r_error r) @ '' ('' @ show_int (int (r_errno r)) @ '').'',
                r_errno r), s'))"

definition execute_cmd_no_retry ::
  "externals \<Rightarrow> string \<Rightarrow> string \<Rightarrow> nat \<Rightarrow> MariaDBServer
     \<Rightarrow> (bool \<times> string \<times> nat) \<times> MariaDBServer" where
  "execute_cmd_no_retry ext cmd errmsg errnum s = execute_cmd_ex ext cmd DISABLED errmsg errnum s"

definition min_query_time :: Duration where
  "min_query_time = seconds 1"

text \<open>
  One pass through the body of the loop of \<open>execute_cmd_time_limit\<close>: the attempt, the
  decision to keep trying, and, when the attempt failed and the loop goes on, the
  warning and the sleep. \<open>timer\<close> is the time at which the function started,
  \<open>has_max_stmt_time\<close> says that the \<open>max_statement_time\<close> prefix is not empty. The
  result is \<open>cmd_success\<close>, \<open>keep_trying\<close>, the error message of the attempt and the
  state.
\<close>

definition execute_cmd_attempt ::
  "externals \<Rightarrow> string \<Rightarrow> bool \<Rightarrow> Duration \<Rightarrow> int \<Rightarrow> MariaDBServer
     \<Rightarrow> bool \<times> bool \<times> string \<times> MariaDBServer" where
  "execute_cmd_attempt ext command has_max_stmt_time time_limit timer s =
     (let query_timer = clock s;
          ((cmd_success, error_msg, errornum), s1) = execute_cmd_no_retry ext command [] 0 s;
          query_time = clock s1 - query_timer;
          time_remaining = time_limit - (clock s1 - timer);
          non_fatal_connector_err = mxs_mysql_is_net_error ext errornum;
          keep_trying = (time_remaining > 0
                         \<and> (non_fatal_connector_err
                            \<or> (has_max_stmt_time \<and> errornum = ER_STATEMENT_TIMEOUT)))
      in if \<not> cmd_success \<and> keep_trying
         then (let retrying = ''Retrying with '' @ printf_secs ext time_remaining @ '' seconds left.'';
                   s2 = (if non_fatal_connector_err
                         then mxs_log LOG_WARNING (error_msg @ '' '' @ retrying) s1
                         else mxs_log LOG_WARNING
                                (''Query '' @ quoted command @ '' timed out on ''
                                 @ quoted (server_name s1) @ ''. '' @ retrying) s1)
               in (cmd_success, keep_trying, error_msg,
                   if query_time < min_query_time
                   then sleep_for (min time_remaining (min_query_time - query_time)) s2
                   else s2))
         else (cmd_success, keep_trying, error_msg, s1))"

text \<open>
  The loop \<open>while (!cmd_success && keep_trying)\<close>. Both flags start so that the body
  runs once; the error message goes to the out-parameter when the loop ends in failure.
\<close>

function execute_cmd_loop ::
  "externals \<Rightarrow> string \<Rightarrow> bool \<Rightarrow> Duration \<Rightarrow> int \<Rightarrow> string \<Rightarrow> MariaDBServer
     \<Rightarrow> bool \<times> string \<times> MariaDBServer" where
  "execute_cmd_loop ext command has_max_stmt_time time_limit timer errmsg s =
     (case execute_cmd_attempt ext command has_max_stmt_time time_limit timer s of
        (cmd_success, keep_trying, error_msg, s') \<Rightarrow>
          if \<not> cmd_success \<and> keep_trying
          then execute_cmd_loop ext command has_max_stmt_time time_limit timer errmsg s'
          else (cmd_success, if \<not> cmd_success then error_msg else errmsg, s'))"
  by pat_completeness auto
termination
  apply (relation "measure (\<lambda>(ext, command, has_max_stmt_time, time_limit, timer, errmsg, s).
                            nat (time_limit - (clock s - timer)))")
   apply simp
  apply (auto simp: execute_cmd_attempt_def execute_cmd_no_retry_def execute_cmd_ex_def
                    mysql_send_def sleep_for_def mxs_log_def min_query_time_def seconds_def Let_def
              split: prod.splits if_splits option.splits)
  done

declare execute_cmd_loop.simps [simp del]

definition execute_cmd_time_limit ::
  "externals \<Rightarrow> string \<Rightarrow> Duration \<Rightarrow> string \<Rightarrow> MariaDBServer \<Rightarrow> bool \<times> string \<times> MariaDBServer" where
  "execute_cmd_time_limit ext cmd time_limit errmsg s =
     (let timer = clock s;
          max_stmt_time =
            (if max_statement_time (m_capabilities s) \<and> connector_timeout s > 0
             then ''SET STATEMENT max_statement_time='' @ show_int (connector_timeout s) @ '' FOR ''
             else []);
          command = max_stmt_time @ cmd
      in execute_cmd_loop ext command (max_stmt_time \<noteq> []) time_limit timer errmsg s)"

section \<open>Stopping and removing slave connections\<close>

datatype StopMode = STOP_ONLY | RESET | RESET_ALL

definition stop_slave_conn ::
  "externals \<Rightarrow> string \<Rightarrow> StopMode \<Rightarrow> Duration \<Rightarrow> MariaDBServer \<Rightarrow> bool \<times> MariaDBServer" where
  "stop_slave_conn ext conn_name mode time_limit s =
     (let time_left = time_limit;
          timer = clock s;
          stop = ''STOP SLAVE '' @ quoted conn_name @ '';'';
          (stop_success, error_msg, s1) = execute_cmd_time_limit ext stop time_left [] s;
          time_left = time_left - (clock s1 - timer)
      in if stop_success
         then (if mode = RESET \<or> mode = RESET_ALL
               then (let reset = ''RESET SLAVE '' @ quoted conn_name
                                 @ (if mode = RESET_ALL then '' ALL'' else []) @ '';'';
                         (reset_success, error_msg, s2) =
                            execute_cmd_time_limit ext reset time_left error_msg s1
                     in if reset_success then (True, s2)
                        else (False,
                              PRINT_MXS_JSON_ERROR
                                (''Failed to reset slave connection on '' @ quoted (server_name s2)
                                 @ '': '' @ error_msg) s2))
               else (True, s1))
         else (False,
               PRINT_MXS_JSON_ERROR
                 (''Failed to stop slave connection on '' @ quoted (server_name s1)
                  @ '': '' @ error_msg) s1))"

text \<open>
  The first loop of \<open>remove_slave_conns\<close>: stop and reset each connection until one
  fails; \<open>timer\<close> is the time of the last lap. The result starts with
  \<open>stop_slave_error\<close>.
\<close>

fun remove_conns_loop ::
  "externals \<Rightarrow> SlaveStatusArray \<Rightarrow> int \<Rightarrow> GeneralOpData \<Rightarrow> MariaDBServer
     \<Rightarrow> bool \<times> int \<times> GeneralOpData \<times> MariaDBServer" where
  "remove_conns_loop ext [] timer op s = (False, timer, op, s)"
| "remove_conns_loop ext (conn # rest) timer op s =
     (let (stopped, s1) = stop_slave_conn ext (name conn) RESET_ALL (time_remaining op) s;
          op1 = op\<lparr>time_remaining := time_remaining op - (clock s1 - timer)\<rparr>;
          timer1 = clock s1
      in if \<not> stopped then (True, timer1, op1, s1)
         else remove_conns_loop ext rest timer1 op1 s1)"

text \<open>
  \<open>remove_slave_conns\<close>. The argument may be the server's own array; the function
  works on the copy it takes at the start, and the array is only replaced by the status
  refresh after the loop.
\<close>

definition remove_slave_conns ::
  "externals \<Rightarrow> SlaveStatusArray \<Rightarrow> GeneralOpData \<Rightarrow> MariaDBServer
     \<Rightarrow> bool \<times> GeneralOpData \<times> MariaDBServer" where
  "remove_slave_conns ext conns_to_remove op s =
     (let timer = clock s;
          conns_to_remove_copy = conns_to_remove;
          (stop_slave_error, timer, op1, s1) = remove_conns_loop ext conns_to_remove timer op s;
          (success, s3) =
            (if stop_slave_error
             then (False,
                   PRINT_MXS_JSON_ERROR
                     (''Failed to remove slave connection(s) from '' @ quoted (server_name s1) @ ''.'') s1)
             else (case do_show_slave_status ext [] s1 of
                     (True, error_msg, s2) \<Rightarrow>
                       (let connection_names = set (map name (m_slave_status s2));
                            found = length (filter (\<lambda>removed_conn. name removed_conn \<in> connection_names)
                                              conns_to_remove_copy)
                        in if found = 0 then (True, s2)
                           else (False,
                                 PRINT_MXS_JSON_ERROR
                                   (quoted (server_name s2) @ '' still has '' @ show_int (int found)
                                    @ '' removed slave connections, RESET SLAVE must have failed.'') s2))
                   | (False, error_msg, s2) \<Rightarrow>
                       (False,
                        PRINT_MXS_JSON_ERROR
                          (''Failed to update slave connections of '' @ quoted (server_name s2)
                           @ '': '' @ error_msg) s2)))
      in (success, op1\<lparr>time_remaining := time_remaining op1 - (clock s3 - timer)\<rparr>, s3))"

section \<open>Creating and redirecting slave connections\<close>

text \<open>
  \<open>generate_change_master_cmd\<close>: the command carries the password; a debug build logs
  the command with the password replaced by asterisks.
\<close>

definition MASTER_PW :: "string \<Rightarrow> string" where
  "MASTER_PW pw = ''MASTER_PASSWORD = '' @ quoted pw @ '';''"

definition generate_change_master_cmd ::
  "externals \<Rightarrow> GeneralOpData \<Rightarrow> SlaveStatus \<Rightarrow> MariaDBServer \<Rightarrow> string \<times> MariaDBServer" where
  "generate_change_master_cmd ext op slave_conn s =
     (let change_cmd = ''CHANGE MASTER '' @ quoted (name slave_conn) @ '' TO MASTER_HOST = ''
                       @ quoted (master_host slave_conn) @ '', MASTER_PORT = ''
                       @ show_int (master_port slave_conn) @ '', '';
          change_cmd = change_cmd @ ''MASTER_USE_GTID = current_pos, '';
          change_cmd = (if replication_ssl op then change_cmd @ ''MASTER_SSL = 1, '' else change_cmd);
          change_cmd = change_cmd @ ''MASTER_USER = '' @ quoted (replication_user op) @ '', '';
          s1 = (if SS_DEBUG ext
                then mxs_log LOG_DEBUG
                       (''Change master command is '' @ quoted (change_cmd @ MASTER_PW ''******'') @ ''.'') s
                else s)
      in (change_cmd @ MASTER_PW (replication_password op), s1))"

definition create_start_slave ::
  "externals \<Rightarrow> SlaveStatus \<Rightarrow> GeneralOpData \<Rightarrow> MariaDBServer
     \<Rightarrow> bool \<times> GeneralOpData \<times> MariaDBServer" where
  "create_start_slave ext slave_conn op s =
     (let timer = clock s;
          new_conn = slave_conn\<lparr>owning_server := server_name s\<rparr>;
          (change_master, s0) = generate_change_master_cmd ext op new_conn s;
          (conn_created, error_msg, s1) =
             execute_cmd_time_limit ext change_master (time_remaining op) [] s0;
          op1 = op\<lparr>time_remaining := time_remaining op - (clock s1 - timer)\<rparr>;
          timer = clock s1
      in if conn_created
         then (let start_slave = ''START SLAVE '' @ quoted (name new_conn) @ '';'';
                   (slave_started, error_msg, s2) =
                      execute_cmd_time_limit ext start_slave (time_remaining op1) error_msg s1;
                   op2 = op1\<lparr>time_remaining := time_remaining op1 - (clock s2 - timer)\<rparr>
               in if slave_started
                  then (True, op2,
                        mxs_log LOG_NOTICE (to_short_string ext new_conn @ '' created and started.'') s2)
                  else (False, op2,
                        mxs_log LOG_ERROR
                          (to_short_string ext new_conn @ '' could not be started: '' @ error_msg) s2))
         else (False, op1,
               mxs_log LOG_ERROR
                 (to_short_string ext new_conn @ '' could not be created: '' @ error_msg) s1))"

text \<open>
  \<open>redirect_existing_slave_conn\<close>: of the new master only the address and port of its
  \<open>SERVER\<close> record are read.
\<close>

definition redirect_existing_slave_conn ::
  "externals \<Rightarrow> SlaveStatus \<Rightarrow> MariaDBServer \<Rightarrow> GeneralOpData \<Rightarrow> MariaDBServer
     \<Rightarrow> bool \<times> GeneralOpData \<times> MariaDBServer" where
  "redirect_existing_slave_conn ext old_conn new_master op s =
     (let timer = clock s;
          (stopped, s1) = stop_slave_conn ext (name old_conn) STOP_ONLY (time_remaining op) s;
          op1 = op\<lparr>time_remaining := time_remaining op - (clock s1 - timer)\<rparr>;
          timer = clock s1
      in if stopped
         then (let modified_conn = old_conn\<lparr>master_host := server_address new_master\<rparr>;
                   modified_conn = modified_conn\<lparr>master_port := server_port new_master\<rparr>;
                   (change_master, s2) = generate_change_master_cmd ext op1 modified_conn s1;
                   (changed, error_msg, s3) =
                      execute_cmd_time_limit ext change_master (time_remaining op1) [] s2;
                   op2 = op1\<lparr>time_remaining := time_remaining op1 - (clock s3 - timer)\<rparr>;
                   timer = clock s3
               in if changed
                  then (let start = ''START SLAVE '' @ quoted (name old_conn) @ '';'';
                            (started, error_msg, s4) =
                               execute_cmd_time_limit ext start (time_remaining op2) error_msg s3;
                            op3 = op2\<lparr>time_remaining := time_remaining op2 - (clock s4 - timer)\<rparr>
                        in if started then (True, op3, s4)
                           else (False, op3,
                                 PRINT_MXS_JSON_ERROR
                                   (to_short_string ext modified_conn @ '' could not be started: ''
                                    @ error_msg) s4))
                  else (False, op2,
                        PRINT_MXS_JSON_ERROR
                          (to_short_string ext old_conn @ '' could not be redirected to [''
                           @ master_host modified_conn @ '']:'' @ show_int (master_port modified_conn)
                           @ '': '' @ error_msg) s3))
         else (False, op1, s1))"

section \<open>Merging slave connections at failover\<close>

text \<open>
  The helper \<open>conn_can_be_merged\<close> of \<open>merge_slave_conns\<close>: whether the connection is
  accepted, and the reason when it is not. The loop over the server's own connections
  has no break: a later connection can replace the reason, never the verdict.
\<close>

definition conn_can_be_merged :: "externals \<Rightarrow> MariaDBServer \<Rightarrow> SlaveStatus \<Rightarrow> bool \<times> string" where
  "conn_can_be_merged ext s slave_conn =
     (let master_id = master_server_id slave_conn;
          my_host = server_address s;
          my_port = server_port s
      in if \<not> fst (should_be_copied ext slave_conn)
         then (False, snd (should_be_copied ext slave_conn))
         else if master_id = m_server_id s
         then (False, ''it points to '' @ quoted (server_name s) @ '' (according to server id:s).'')
         else if master_host slave_conn = my_host \<and> master_port slave_conn = my_port
         then (False, ''it points to '' @ quoted (server_name s)
                      @ '' (according to master host:port).'')
         else fold (\<lambda>my_slave_conn (accepted, ignore_reason).
                      if seen_connected my_slave_conn \<and> master_server_id my_slave_conn = master_id
                      then (False, ''its Master_Server_Id ('' @ show_int master_id
                                   @ '') matches an existing slave connection on ''
                                   @ quoted (server_name s) @ ''.'')
                      else if master_host my_slave_conn = master_host slave_conn
                              \<and> master_port my_slave_conn = master_port slave_conn
                      then (False, ''its Master_Host ('' @ master_host slave_conn
                                   @ '') and Master_Port ('' @ show_int (master_port slave_conn)
                                   @ '') match an existing slave connection on ''
                                   @ server_name s @ ''.'')
                      else (accepted, ignore_reason))
                (m_slave_status s) (True, []))"

definition second_try :: "SlaveStatus \<Rightarrow> string" where
  "second_try slave_conn =
     ''To ['' @ master_host slave_conn @ '']:'' @ show_int (master_port slave_conn)"

text \<open>
  The helper \<open>check_modify_conn_name\<close>: whether a unique name was found, and the
  connection with the name it is to get.
\<close>

definition check_modify_conn_name ::
  "string set \<Rightarrow> SlaveStatus \<Rightarrow> MariaDBServer \<Rightarrow> (bool \<times> SlaveStatus) \<times> MariaDBServer" where
  "check_modify_conn_name connection_names slave_conn s =
     (if name slave_conn \<in> connection_names
      then (if second_try slave_conn \<in> connection_names
            then ((False, slave_conn),
                  mxs_log LOG_ERROR
                    (''Could not generate a unique connection name for '' @ quoted (server_name s)
                     @ '': both '' @ quoted (name slave_conn) @ '' and ''
                     @ quoted (second_try slave_conn) @ '' are already taken.'') s)
            else ((True, slave_conn\<lparr>name := second_try slave_conn\<rparr>),
                  mxs_log LOG_WARNING
                    (''A slave connection with name '' @ quoted (name slave_conn)
                     @ '' already exists on '' @ quoted (server_name s)
                     @ '', using generated name '' @ quoted (second_try slave_conn)
                     @ '' instead.'') s))
      else ((True, slave_conn), s))"

text \<open>The loop of \<open>merge_slave_conns\<close>; the result starts with \<open>error\<close>.\<close>

fun merge_loop ::
  "externals \<Rightarrow> SlaveStatusArray \<Rightarrow> string set \<Rightarrow> GeneralOpData \<Rightarrow> MariaDBServer
     \<Rightarrow> bool \<times> GeneralOpData \<times> MariaDBServer" where
  "merge_loop ext [] connection_names op s = (False, op, s)"
| "merge_loop ext (conn # rest) connection_names op s =
     (if fst (conn_can_be_merged ext s conn)
      then (case check_modify_conn_name connection_names conn s of
              ((True, slave_conn), s1) \<Rightarrow>
                (case create_start_slave ext slave_conn op s1 of
                   (True, op1, s2) \<Rightarrow>
                     merge_loop ext rest (insert (name slave_conn) connection_names) op1 s2
                 | (False, op1, s2) \<Rightarrow> (True, op1, s2))
            | ((False, slave_conn), s1) \<Rightarrow> (True, op, s1))
      else merge_loop ext rest connection_names op
             (mxs_log LOG_WARNING
                (to_short_string ext conn @ '' was ignored when promoting ''
                 @ quoted (server_name s) @ '' because '' @ snd (conn_can_be_merged ext s conn)) s))"

definition merge_slave_conns ::
  "externals \<Rightarrow> SlaveStatusArray \<Rightarrow> GeneralOpData \<Rightarrow> MariaDBServer
     \<Rightarrow> bool \<times> GeneralOpData \<times> MariaDBServer" where
  "merge_slave_conns ext conns_to_merge op s =
     (case merge_loop ext conns_to_merge (set (map name (m_slave_status s))) op s of
        (error, op', s') \<Rightarrow> (\<not> error, op', s'))"

section \<open>Waiting for a GTID position\<close>





section \<open>Kicking out super-users\<close>



section \<open>The specification's notions\<close>

text \<open>
  Topology equality as section 3 words it: two arrays are topology-equal when they have
  the same length and, row by row, the same IO state, SQL state, master host, master
  port and master server id.
\<close>

definition row_topology_equal :: "SlaveStatus \<Rightarrow> SlaveStatus \<Rightarrow> bool" where
  "row_topology_equal a b =
     (slave_io_running a = slave_io_running b \<and> slave_sql_running a = slave_sql_running b
      \<and> master_host a = master_host b \<and> master_port a = master_port b
      \<and> master_server_id a = master_server_id b)"

definition topology_equal :: "SlaveStatusArray \<Rightarrow> SlaveStatusArray \<Rightarrow> bool" where
  "topology_equal old new = list_all2 row_topology_equal old new"


text \<open>
  The previous row consulted for a new row at index \<open>i\<close>: the previous row at that
  index when it has the master host and port of the new row, otherwise the first
  previous row that has them.
\<close>

definition same_master :: "SlaveStatus \<Rightarrow> SlaveStatus \<Rightarrow> bool" where
  "same_master old r = (master_host old = master_host r \<and> master_port old = master_port r)"

definition row_consulted :: "SlaveStatusArray \<Rightarrow> SlaveStatus \<Rightarrow> nat \<Rightarrow> SlaveStatus option" where
  "row_consulted previous r i =
     (if i < length previous \<and> same_master (previous ! i) r then Some (previous ! i)
      else (case filter (\<lambda>old. same_master old r) previous of
              [] \<Rightarrow> None
            | old # others \<Rightarrow> Some old))"

text \<open>
  The retry loop in the words of section 4.2: an attempt fails when the query fails or
  returns data; its error number is the connector's, or zero when the query itself went
  through; an error is worth a retry when it is a network error or a statement timeout
  under the \<open>max_statement_time\<close> prefix. \<open>spaced\<close> says of the sending times of
  consecutive attempts that each is at least a second after the one before, or as much
  as the budget had left when the one before was sent.
\<close>

definition retryable :: "externals \<Rightarrow> bool \<Rightarrow> nat \<Rightarrow> bool" where
  "retryable ext has_max_stmt_time errornum =
     (mxs_mysql_is_net_error ext errornum \<or> (has_max_stmt_time \<and> errornum = ER_STATEMENT_TIMEOUT))"

definition attempt_failed :: "reply \<Rightarrow> bool" where
  "attempt_failed r = (\<not> r_ok r \<or> r_result r \<noteq> None)"

definition attempt_errno :: "reply \<Rightarrow> nat" where
  "attempt_errno r = (if r_ok r then 0 else r_errno r)"


text \<open>
  Names for parts of \<open>execute_cmd_time_limit\<close>: the prefix it puts before the command,
  the state after one exchange with the backend, and the error message of a failed
  attempt.
\<close>

definition max_stmt_time_prefix :: "MariaDBServer \<Rightarrow> string" where
  "max_stmt_time_prefix s =
     (if max_statement_time (m_capabilities s) \<and> 0 < connector_timeout s
      then ''SET STATEMENT max_statement_time='' @ show_int (connector_timeout s) @ '' FOR ''
      else [])"

definition after_send :: "externals \<Rightarrow> string \<Rightarrow> MariaDBServer \<Rightarrow> MariaDBServer" where
  "after_send ext query s =
     s\<lparr>sent := sent s @ [(clock s, query)],
       clock := clock s + int (r_took (backend ext (length (sent s)) query))\<rparr>"

definition failure_message :: "string \<Rightarrow> string \<Rightarrow> reply \<Rightarrow> string" where
  "failure_message cmd server r =
     (if r_ok r
      then ''Query '' @ quoted cmd @ '' on '' @ quoted server @ '' returned ''
           @ show_int (get_col_count (the (r_result r))) @ '' columns and ''
           @ show_int (int (length (result_rows (the (r_result r)))))
           @ '' rows of data when none was expected.''
      else ''Query '' @ quoted cmd @ '' failed on '' @ quoted server @ '': ''
           @ quoted (r_error r) @ '' ('' @ show_int (int (r_errno r)) @ '').'')"



text \<open>Whether a string occurs in another, for looking into log messages.\<close>

fun is_prefix_of :: "string \<Rightarrow> string \<Rightarrow> bool" where
  "is_prefix_of [] ys = True"
| "is_prefix_of (x # xs) [] = False"
| "is_prefix_of (x # xs) (y # ys) = (x = y \<and> is_prefix_of xs ys)"

fun occurs_in :: "string \<Rightarrow> string \<Rightarrow> bool" where
  "occurs_in needle [] = (needle = [])"
| "occurs_in needle (c # cs) = (is_prefix_of needle (c # cs) \<or> occurs_in needle cs)"

text \<open>
  \<open>same_server s s'\<close>: the two states agree on everything but the clock, the
  statements sent, the sleeps and the log.
\<close>

definition same_server :: "MariaDBServer \<Rightarrow> MariaDBServer \<Rightarrow> bool" where
  "same_server s s' =
     (json_errors s' = json_errors s \<and> m_slave_status s' = m_slave_status s
      \<and> m_server_id s' = m_server_id s \<and> server_name s' = server_name s
      \<and> server_address s' = server_address s \<and> server_port s' = server_port s
      \<and> m_capabilities s' = m_capabilities s \<and> connector_timeout s' = connector_timeout s
      \<and> m_srv_type s' = m_srv_type s \<and> m_rpl_settings s' = m_rpl_settings s
      \<and> m_gtid_current_pos s' = m_gtid_current_pos s
      \<and> m_gtid_binlog_pos s' = m_gtid_binlog_pos s
      \<and> m_topology_changed s' = m_topology_changed s
      \<and> server_master_id s' = server_master_id s)"









text \<open>
  Merging in the words of section 4.4: a connection targets the promoted server itself
  by id or by host and port; it duplicates an existing connection of that server by
  host and port, or by master server id when the existing connection has been seen
  connected; it is accepted when it passes the copy test and is neither. The plan of a
  merge decides for each connection in turn, from the names taken so far: ignore it,
  create it under its own name or, when that is taken, under the synthesized name, or
  give up when both are taken. \<open>planned_creations\<close> are the connections a plan creates.
\<close>

definition targets_self :: "MariaDBServer \<Rightarrow> SlaveStatus \<Rightarrow> bool" where
  "targets_self s conn =
     (master_server_id conn = m_server_id s
      \<or> (master_host conn = server_address s \<and> master_port conn = server_port s))"

definition duplicates_existing :: "MariaDBServer \<Rightarrow> SlaveStatus \<Rightarrow> bool" where
  "duplicates_existing s conn =
     list_ex (\<lambda>mine. (seen_connected mine \<and> master_server_id mine = master_server_id conn)
                      \<or> (master_host mine = master_host conn \<and> master_port mine = master_port conn))
             (m_slave_status s)"

definition merge_accepted :: "externals \<Rightarrow> MariaDBServer \<Rightarrow> SlaveStatus \<Rightarrow> bool" where
  "merge_accepted ext s conn =
     (fst (should_be_copied ext conn) \<and> \<not> targets_self s conn \<and> \<not> duplicates_existing s conn)"

datatype merge_step = Ignore SlaveStatus | Create SlaveStatus SlaveStatus | GiveUp SlaveStatus

fun merge_plan :: "externals \<Rightarrow> MariaDBServer \<Rightarrow> string set \<Rightarrow> SlaveStatusArray \<Rightarrow> merge_step list" where
  "merge_plan ext s names [] = []"
| "merge_plan ext s names (conn # rest) =
     (if \<not> merge_accepted ext s conn then Ignore conn # merge_plan ext s names rest
      else if name conn \<notin> names
      then Create conn conn # merge_plan ext s (insert (name conn) names) rest
      else if second_try conn \<notin> names
      then Create conn (conn\<lparr>name := second_try conn\<rparr>)
           # merge_plan ext s (insert (second_try conn) names) rest
      else [GiveUp conn])"

fun planned_creations :: "merge_step list \<Rightarrow> SlaveStatusArray" where
  "planned_creations [] = []"
| "planned_creations (Create conn renamed # rest) = renamed # planned_creations rest"
| "planned_creations (step # rest) = planned_creations rest"

fun gives_up :: "merge_step list \<Rightarrow> bool" where
  "gives_up [] = False"
| "gives_up (GiveUp conn # rest) = True"
| "gives_up (step # rest) = gives_up rest"


text \<open>
  Carrying out a plan with the effects of \<open>merge_slave_conns\<close>: the warning for an
  ignored connection, the warning for a renamed one and \<open>create_start_slave\<close> on it,
  stopping at the first connection that cannot be created, and the error when no name
  could be found. The result starts with \<open>error\<close>.
\<close>

fun run_merge_plan ::
  "externals \<Rightarrow> merge_step list \<Rightarrow> GeneralOpData \<Rightarrow> MariaDBServer
     \<Rightarrow> bool \<times> GeneralOpData \<times> MariaDBServer" where
  "run_merge_plan ext [] op s = (False, op, s)"
| "run_merge_plan ext (Ignore conn # rest) op s =
     run_merge_plan ext rest op
       (mxs_log LOG_WARNING
          (to_short_string ext conn @ '' was ignored when promoting ''
           @ quoted (server_name s) @ '' because '' @ snd (conn_can_be_merged ext s conn)) s)"
| "run_merge_plan ext (Create conn renamed # rest) op s =
     (case create_start_slave ext renamed op
             (if name renamed \<noteq> name conn
              then mxs_log LOG_WARNING
                     (''A slave connection with name '' @ quoted (name conn)
                      @ '' already exists on '' @ quoted (server_name s)
                      @ '', using generated name '' @ quoted (second_try conn)
                      @ '' instead.'') s
              else s) of
        (True, op1, s2) \<Rightarrow> run_merge_plan ext rest op1 s2
      | (False, op1, s2) \<Rightarrow> (True, op1, s2))"
| "run_merge_plan ext (GiveUp conn # rest) op s =
     (True, op,
      mxs_log LOG_ERROR
        (''Could not generate a unique connection name for '' @ quoted (server_name s)
         @ '': both '' @ quoted (name conn) @ '' and ''
         @ quoted (second_try conn) @ '' are already taken.'') s)"

section \<open>Concrete backends and servers\<close>

text \<open>
  Inputs on which the definitions are evaluated: a result set with the columns of
  \<open>SHOW ALL SLAVES STATUS\<close>, replies of the backend, externals built around a backend,
  and a MariaDB 10.2 server with a given slave status array.
\<close>

definition fx_col_index :: "string \<Rightarrow> int" where
  "fx_col_index n =
     (if n = ''Master_Host'' then 0 else if n = ''Master_Port'' then 1
      else if n = ''Slave_IO_Running'' then 2 else if n = ''Slave_SQL_Running'' then 3
      else if n = ''Master_Server_Id'' then 4 else if n = ''Last_IO_Errno'' then 5
      else if n = ''Last_IO_Error'' then 6 else if n = ''Last_SQL_Error'' then 7
      else if n = ''Seconds_Behind_Master'' then 8 else if n = ''Connection_name'' then 9
      else if n = ''Slave_received_heartbeats'' then 10
      else if n = ''Slave_heartbeat_period'' then 11 else if n = ''Using_Gtid'' then 12
      else if n = ''Gtid_IO_Pos'' then 13 else -1)"

definition fx_row :: "string \<Rightarrow> int \<Rightarrow> string \<Rightarrow> string \<Rightarrow> int \<Rightarrow> string \<Rightarrow> ResultRow" where
  "fx_row host port io sql mid cname =
     \<lparr> get_string = (\<lambda>i. if i = 0 then host else if i = 2 then io else if i = 3 then sql
                          else if i = 9 then cname else []),
       get_uint = (\<lambda>i. if i = 1 then port else if i = 4 then mid else 0),
       get_bool = (\<lambda>i. False) \<rparr>"

definition fx_result :: "ResultRow list \<Rightarrow> QueryResult" where
  "fx_result rows = \<lparr> get_col_count = 42, get_col_index = fx_col_index, result_rows = rows \<rparr>"

definition fx_io_from_string :: "string \<Rightarrow> slave_io_running_t" where
  "fx_io_from_string str =
     (if str = ''Yes'' then SLAVE_IO_YES
      else if str = ''Connecting'' \<or> str = ''Preparing'' then SLAVE_IO_CONNECTING
      else SLAVE_IO_NO)"

definition fx_reply :: "QueryResult option \<Rightarrow> reply" where
  "fx_reply res = \<lparr> r_ok = True, r_result = res, r_errno = 0, r_error = [], r_took = 1000000 \<rparr>"

definition fx_failure :: "nat \<Rightarrow> string \<Rightarrow> nat \<Rightarrow> reply" where
  "fx_failure errnum msg took =
     \<lparr> r_ok = False, r_result = None, r_errno = errnum, r_error = msg, r_took = took \<rparr>"

definition fx_externals :: "(nat \<Rightarrow> string \<Rightarrow> reply) \<Rightarrow> externals" where
  "fx_externals be =
     \<lparr> backend = be,
       mxs_mysql_is_net_error = (\<lambda>e. e = 2002 \<or> e = 2003 \<or> e = 2006 \<or> e = 2013),
       slave_io_from_string = fx_io_from_string,
       GtidList_from_string = (\<lambda>str. []),
       should_be_copied = (\<lambda>c. (slave_sql_running c \<and> seen_connected c \<and> 0 < master_server_id c,
                                 ''it is not replicating.'')),
       to_short_string = (\<lambda>c. ''Slave connection from '' @ owning_server c @ '' to ['' @ master_host c
                                @ '']:'' @ show_int (master_port c)),
       printf_secs = (\<lambda>d. show_int (d div 1000000000)),
       SS_DEBUG = True \<rparr>"

definition fx_server :: "SlaveStatusArray \<Rightarrow> bool \<Rightarrow> MariaDBServer" where
  "fx_server conns changed =
     \<lparr> server_name = ''server2'', server_address = ''10.0.0.2'', server_port = 3306,
       server_master_id = 7, connector_timeout = 10, m_server_id = 2,
       m_slave_status = conns, m_topology_changed = changed,
       m_capabilities = \<lparr> basic_support = True, gtid = True, max_statement_time = True \<rparr>,
       m_srv_type = NORMAL,
       m_rpl_settings = \<lparr> gtid_strict_mode = True, log_bin = True, log_slave_updates = True \<rparr>,
       m_gtid_current_pos = [], m_gtid_binlog_pos = [],
       clock = 0, sent = [], sleeps = [], log_sink = [], json_errors = [] \<rparr>"

definition fx_conn :: "string \<Rightarrow> string \<Rightarrow> int \<Rightarrow> int \<Rightarrow> bool \<Rightarrow> SlaveStatus" where
  "fx_conn cname host port mid seen =
     (SlaveStatus_new 0)\<lparr> name := cname, master_host := host, master_port := port,
        master_server_id := mid, seen_connected := seen,
        slave_io_running := SLAVE_IO_YES, slave_sql_running := True \<rparr>"


text \<open>A connection as the status update leaves it when it has never been seen connected.\<close>

definition fx_unseen_conn :: "string \<Rightarrow> string \<Rightarrow> int \<Rightarrow> int \<Rightarrow> SlaveStatus" where
  "fx_unseen_conn cname host port mid =
     (SlaveStatus_new 0)\<lparr> name := cname, master_host := host, master_port := port,
        master_server_id := mid, seen_connected := False,
        slave_io_running := SLAVE_IO_CONNECTING, slave_sql_running := True \<rparr>"

definition fx_removal_backend :: "nat \<Rightarrow> string \<Rightarrow> reply" where
  "fx_removal_backend k q =
     (if q = ''SHOW ALL SLAVES STATUS;'' then fx_reply (Some (fx_result [])) else fx_reply None)"


definition fx_op :: GeneralOpData where
  "fx_op = \<lparr> time_remaining = 90000000000, replication_user = ''repl'',
             replication_password = ''s3cret'', replication_ssl = False \<rparr>"

definition fx_running_slave :: reply where
  "fx_running_slave =
     fx_failure 1198 ''This operation cannot be performed as you have a running slave'' 1000000"







section \<open>Properties of the slave status update\<close>

lemmas fx_defs = fx_col_index_def fx_row_def fx_result_def fx_io_from_string_def fx_reply_def
  fx_failure_def fx_externals_def fx_server_def fx_conn_def

lemmas read_defs = update_slave_status_def do_show_slave_status_def read_slave_status_def
  execute_query_def mysql_send_def build_row_def read_row_def sstatus_find_previous_row_def
  compare_rows_def sstatus_array_topology_equal_def rows_differ_def SlaveStatus_new_def
  SERVER_ID_UNKNOWN_def MXS_RLAG_UNDEFINED_def INT_MAX_def GtidList_eq_def mxs_log_def
  narrow_int_def Let_def

lemma mysql_send_frame:
  "mysql_send ext q s = (r, s1) \<Longrightarrow>
     m_slave_status s1 = m_slave_status s \<and> m_topology_changed s1 = m_topology_changed s
     \<and> server_master_id s1 = server_master_id s
     \<and> sent s1 = sent s @ [(clock s, q)] \<and> r = backend ext (length (sent s)) q"
  by (auto simp: mysql_send_def Let_def)

lemma execute_query_frame:
  "execute_query ext q s = (res, s1) \<Longrightarrow>
     m_slave_status s1 = m_slave_status s \<and> m_topology_changed s1 = m_topology_changed s
     \<and> server_master_id s1 = server_master_id s
     \<and> sent s1 = sent s @ [(clock s, q)]"
  by (auto simp: execute_query_def Let_def  split: prod.splits option.splits if_splits dest!: mysql_send_frame)

lemma execute_query_Inr:
  "execute_query ext q s = (Inr res, s1) \<Longrightarrow>
     r_ok (backend ext (length (sent s)) q) \<and> r_result (backend ext (length (sent s)) q) = Some res"
  by (auto simp: execute_query_def Let_def  split: prod.splits option.splits if_splits dest!: mysql_send_frame)

lemma execute_query_Inl:
  "execute_query ext q s = (Inl e, s1) \<Longrightarrow>
     \<not> r_ok (backend ext (length (sent s)) q) \<or> r_result (backend ext (length (sent s)) q) = None"
  by (auto simp: execute_query_def Let_def  split: prod.splits option.splits if_splits dest!: mysql_send_frame)

lemma mxs_log_frame [simp]:
  "m_slave_status (mxs_log l m s) = m_slave_status s"
  "m_topology_changed (mxs_log l m s) = m_topology_changed s"
  "server_master_id (mxs_log l m s) = server_master_id s"
  "sent (mxs_log l m s) = sent s"
  "clock (mxs_log l m s) = clock s"
  "sleeps (mxs_log l m s) = sleeps s"
  by (simp_all add: mxs_log_def)

lemma read_slave_status_fail:
  "read_slave_status ext columns a q errmsg s = (False, e', s') \<Longrightarrow>
     m_slave_status s' = m_slave_status s \<and> m_topology_changed s' = m_topology_changed s
     \<and> server_master_id s' = server_master_id s"
  unfolding read_slave_status_def
  by (auto simp: Let_def split: prod.splits sum.splits if_splits dest!: execute_query_frame)

lemma read_slave_status_sent:
  "read_slave_status ext columns a q errmsg s = (ok, e', s') \<Longrightarrow>
     sent s' = sent s @ [(clock s, q)]"
  unfolding read_slave_status_def
  by (auto simp: Let_def split: prod.splits sum.splits if_splits dest!: execute_query_frame)

lemma read_slave_status_ok:
  assumes "read_slave_status ext columns a q errmsg s = (True, e', s')"
  shows "\<exists>res s1 c. execute_query ext q s = (Inr res, s1) \<and> columns \<le> get_col_count res
          \<and> m_slave_status s' = build_rows ext s1 c a [] (result_rows res)
          \<and> m_topology_changed s' = (m_topology_changed s \<or> \<not> sstatus_array_topology_equal s1 (m_slave_status s'))
          \<and> server_master_id s' = server_master_id s \<and> m_slave_status s1 = m_slave_status s"
  using assms unfolding read_slave_status_def
  by (auto simp: Let_def split: prod.splits sum.splits if_splits dest!: execute_query_frame)

lemma build_rows_length:
  "length (build_rows ext s c a acc rows) = length acc + length rows"
  by (induction rows arbitrary: acc) auto

lemma build_rows_nth_old:
  "i < length acc \<Longrightarrow> build_rows ext s c a acc rows ! i = acc ! i"
  by (induction rows arbitrary: acc) (auto simp: nth_append)

lemma build_rows_nth_new:
  "i < length rows \<Longrightarrow>
     build_rows ext s c a acc rows ! (length acc + i) = build_row ext s c a (length acc + i) (rows ! i)"
proof (induction rows arbitrary: acc i)
  case Nil
  then show ?case by simp
next
  case (Cons row rest)
  show ?case
  proof (cases i)
    case 0
    then show ?thesis by (simp add: build_rows_nth_old)
  next
    case (Suc j)
    with Cons.prems have "j < length rest" by simp
    from Cons.IH [OF this, of "acc @ [build_row ext s c a (length acc) row]"] Suc
    show ?thesis by simp
  qed
qed

lemma find_previous_row_cong:
  "master_host r = master_host r' \<Longrightarrow> master_port r = master_port r' \<Longrightarrow>
     sstatus_find_previous_row s r i = sstatus_find_previous_row s r' i"
  by (simp add: sstatus_find_previous_row_def compare_rows_def)

lemma find_previous_row_None:
  "sstatus_find_previous_row s r i = None \<longleftrightarrow>
     \<not> (\<exists>old \<in> set (m_slave_status s). master_host r = master_host old \<and> master_port r = master_port old)"
  by (auto simp: sstatus_find_previous_row_def compare_rows_def find_None_iff)

lemma find_previous_row_Some:
  "sstatus_find_previous_row s r i = Some old \<Longrightarrow>
     old \<in> set (m_slave_status s) \<and> master_host r = master_host old \<and> master_port r = master_port old"
  by (auto simp: sstatus_find_previous_row_def compare_rows_def find_Some_iff split: if_splits)

lemma read_row_seen_connected: "\<not> seen_connected (read_row ext s c a row)"
  by (simp add: read_row_def SlaveStatus_new_def Let_def)

lemma build_row_fields:
  "slave_io_running (build_row ext s c a i row) = slave_io_running (read_row ext s c a row)"
  "master_server_id (build_row ext s c a i row) = master_server_id (read_row ext s c a row)"
  "master_host (build_row ext s c a i row) = master_host (read_row ext s c a row)"
  "master_port (build_row ext s c a i row) = master_port (read_row ext s c a row)"
  by (simp_all add: build_row_def Let_def split: option.splits)

lemma build_row_seen:
  "seen_connected (build_row ext s c a i row) =
     (let nr = read_row ext s c a row in
      slave_io_running nr = SLAVE_IO_YES
      \<or> (slave_io_running nr = SLAVE_IO_CONNECTING
         \<and> (\<exists>old. sstatus_find_previous_row s nr i = Some old
                \<and> seen_connected old \<and> master_server_id old = master_server_id nr)))"
  using read_row_seen_connected [of ext s c a row]
  by (auto simp add: build_row_def Let_def split: option.splits)

lemma build_row_seen_connected:
  "let r = build_row ext s c a i row; prev = sstatus_find_previous_row s r i in
     (slave_io_running r = SLAVE_IO_YES \<longrightarrow> seen_connected r)
   \<and> (slave_io_running r = SLAVE_IO_CONNECTING \<longrightarrow>
        (seen_connected r \<longleftrightarrow>
           (\<exists>old. prev = Some old \<and> seen_connected old \<and> master_server_id old = master_server_id r)))
   \<and> (slave_io_running r = SLAVE_IO_NO \<longrightarrow> \<not> seen_connected r)"
proof -
  have same: "sstatus_find_previous_row s (build_row ext s c a i row) i
              = sstatus_find_previous_row s (read_row ext s c a row) i"
    by (rule find_previous_row_cong) (simp_all add: build_row_fields)
  show ?thesis
    unfolding Let_def same build_row_seen build_row_fields by auto
qed

lemma topology_loop_iff:
  "length olds = length news \<Longrightarrow>
     topology_loop olds news = list_all2 row_topology_equal olds news"
  by (induction olds news rule: topology_loop.induct) (auto simp: rows_differ_def row_topology_equal_def)

lemma sstatus_array_topology_equal_iff:
  "sstatus_array_topology_equal s new = topology_equal (m_slave_status s) new"
  by (auto simp: sstatus_array_topology_equal_def topology_equal_def topology_loop_iff
           dest: list_all2_lengthD)


lemma update_slave_status_ok:
  assumes "fst (update_slave_status ext errmsg s)"
  shows "\<exists>res s1 c a q. execute_query ext q s = (Inr res, s1)
          \<and> m_slave_status (snd (snd (update_slave_status ext errmsg s)))
              = build_rows ext s1 c a [] (result_rows res)
          \<and> m_topology_changed (snd (snd (update_slave_status ext errmsg s)))
              = (m_topology_changed s \<or> \<not> sstatus_array_topology_equal s1
                     (m_slave_status (snd (snd (update_slave_status ext errmsg s)))))
          \<and> m_slave_status s1 = m_slave_status s"
proof -
  obtain ok e' s' where d: "do_show_slave_status ext errmsg s = (ok, e', s')"
    by (cases "do_show_slave_status ext errmsg s") auto
  with assms have ok: "ok" by (simp add: update_slave_status_def split: if_splits)
  from d ok obtain columns a q where r: "read_slave_status ext columns a q errmsg s = (True, e', s')"
    by (auto simp: do_show_slave_status_def split: if_splits)
  from read_slave_status_ok [OF r] d ok show ?thesis
    by (auto simp: update_slave_status_def)
qed

text \<open>
  Claim C2, as the code has it. After a successful \<open>update_slave_status\<close> the flag
  \<open>m_topology_changed\<close> holds its previous value or-ed with the negation of topology
  equality between the previous array and the new one: the function only ever sets the
  flag, so the flag is a latch that something else clears.
\<close>

theorem topology_changed_latch:
  "fst (update_slave_status ext errmsg s) \<Longrightarrow>
     m_topology_changed (snd (snd (update_slave_status ext errmsg s))) =
       (m_topology_changed s
        \<or> \<not> topology_equal (m_slave_status s)
                (m_slave_status (snd (snd (update_slave_status ext errmsg s)))))"
  using update_slave_status_ok [of ext errmsg s]
  by (auto simp: sstatus_array_topology_equal_iff)

text \<open>
  Witness for C2: a server without slave connections reads one row; the update succeeds
  and the flag is set.
\<close>

theorem topology_changed_latch_witness:
  "fst (update_slave_status
          (fx_externals (\<lambda>k q. fx_reply (Some (fx_result
             [fx_row ''10.0.0.1'' 3306 ''Yes'' ''Yes'' 1 ''a'']))))
          [] (fx_server [] False))
   \<and> m_topology_changed (snd (snd (update_slave_status
          (fx_externals (\<lambda>k q. fx_reply (Some (fx_result
             [fx_row ''10.0.0.1'' 3306 ''Yes'' ''Yes'' 1 ''a'']))))
          [] (fx_server [] False))))"
proof -
  let ?E = "fx_externals (\<lambda>k q. fx_reply (Some (fx_result
             [fx_row ''10.0.0.1'' 3306 ''Yes'' ''Yes'' 1 ''a''])))"
  have h: "fst (update_slave_status ?E [] (fx_server [] False))"
    by (simp add: fx_defs read_defs)
  have n: "\<not> topology_equal (m_slave_status (fx_server [] False))
             (m_slave_status (snd (snd (update_slave_status ?E [] (fx_server [] False)))))"
    by (simp add: fx_defs read_defs topology_equal_def)
  from topology_changed_latch [OF h] n h show ?thesis by simp
qed

text \<open>
  Counterexample to C2 as stated: the flag is set before the update, the backend reports
  no slave connection and the server had none. The update succeeds, the two arrays are
  topology-equal, and \<open>m_topology_changed\<close> is still true.
\<close>

theorem topology_changed_stays_set:
  "fst (update_slave_status (fx_externals (\<lambda>k q. fx_reply (Some (fx_result []))))
          [] (fx_server [] True))
   \<and> topology_equal (m_slave_status (fx_server [] True))
        (m_slave_status (snd (snd (update_slave_status
           (fx_externals (\<lambda>k q. fx_reply (Some (fx_result [])))) [] (fx_server [] True)))))
   \<and> m_topology_changed (snd (snd (update_slave_status
           (fx_externals (\<lambda>k q. fx_reply (Some (fx_result [])))) [] (fx_server [] True))))"
  by (simp add: fx_defs read_defs topology_equal_def)


lemma find_previous_row_state:
  "m_slave_status s1 = m_slave_status s \<Longrightarrow>
     sstatus_find_previous_row s1 r i = sstatus_find_previous_row s r i"
  by (simp add: sstatus_find_previous_row_def)

lemma find_first_match:
  "find P xs = (case filter P xs of [] \<Rightarrow> None | x # others \<Rightarrow> Some x)"
  by (induction xs) auto

lemma find_previous_row_consulted:
  "sstatus_find_previous_row s r i = row_consulted (m_slave_status s) r i"
proof -
  have same: "\<And>old. compare_rows old r = same_master old r"
    by (auto simp: compare_rows_def same_master_def)
  show ?thesis
    unfolding sstatus_find_previous_row_def row_consulted_def same find_first_match
    by (rule refl)
qed

lemma row_consulted_None:
  "row_consulted previous r i = None \<longleftrightarrow> \<not> (\<exists>old \<in> set previous. same_master old r)"
proof (cases "i < length previous \<and> same_master (previous ! i) r")
  case True
  then have "previous ! i \<in> set previous" by simp
  with True show ?thesis by (auto simp: row_consulted_def)
next
  case False
  have "filter (\<lambda>old. same_master old r) previous = []
          \<longleftrightarrow> \<not> (\<exists>old \<in> set previous. same_master old r)"
    by (simp add: filter_empty_conv)
  with False show ?thesis
    by (cases "filter (\<lambda>old. same_master old r) previous") (simp_all add: row_consulted_def)
qed

lemma row_consulted_Some:
  assumes "row_consulted previous r i = Some old"
  shows "old \<in> set previous \<and> same_master old r"
proof (cases "i < length previous \<and> same_master (previous ! i) r")
  case True
  with assms show ?thesis by (auto simp: row_consulted_def)
next
  case False
  with assms obtain others where "filter (\<lambda>old. same_master old r) previous = old # others"
    by (auto simp: row_consulted_def split: list.splits)
  then have "old \<in> set (filter (\<lambda>old. same_master old r) previous)" by simp
  then show ?thesis by simp
qed

lemma row_consulted_unique:
  assumes "distinct (map (\<lambda>old. (master_host old, master_port old)) previous)"
    and "row_consulted previous r i = Some old"
    and "other \<in> set previous" and "same_master other r"
  shows "other = old"
proof -
  from row_consulted_Some [OF assms(2)] have o: "old \<in> set previous" "same_master old r"
    by simp_all
  from assms(1) have "inj_on (\<lambda>old. (master_host old, master_port old)) (set previous)"
    by (simp add: distinct_map)
  moreover have "(master_host other, master_port other) = (master_host old, master_port old)"
    using o(2) assms(4) by (simp add: same_master_def)
  ultimately show ?thesis
    using o(1) assms(3) by (auto dest: inj_onD)
qed

text \<open>
  Claim C3, as the code has it. For every row \<open>r\<close> of the array built by a successful
  \<open>update_slave_status\<close>, at index \<open>i\<close>: with IO state YES the row has
  \<open>seen_connected\<close>; with IO state NO it has not; with IO state CONNECTING it has
  \<open>seen_connected\<close> exactly when the previous row consulted for it, which is the
  previous row at index \<open>i\<close> if that has the master host and port of \<open>r\<close> and
  otherwise the first previous row that has them, exists, had \<open>seen_connected\<close> and has
  the same master server id. A row is consulted exactly when some previous row has the
  master host and port of \<open>r\<close>. When no two previous rows share host and port, a
  CONNECTING row has \<open>seen_connected\<close> exactly when some previous row with its host and
  port had \<open>seen_connected\<close> and has the same master server id.
\<close>

theorem seen_connected_of_new_rows:
  assumes "fst (update_slave_status ext errmsg s)"
    and "i < length (m_slave_status (snd (snd (update_slave_status ext errmsg s))))"
  shows "let r = m_slave_status (snd (snd (update_slave_status ext errmsg s))) ! i;
             prev = row_consulted (m_slave_status s) r i
         in (slave_io_running r = SLAVE_IO_YES \<longrightarrow> seen_connected r)
          \<and> (slave_io_running r = SLAVE_IO_CONNECTING \<longrightarrow>
               (seen_connected r \<longleftrightarrow>
                  (\<exists>old. prev = Some old \<and> seen_connected old
                     \<and> master_server_id old = master_server_id r)))
          \<and> (slave_io_running r = SLAVE_IO_NO \<longrightarrow> \<not> seen_connected r)
          \<and> (prev = None \<longleftrightarrow> \<not> (\<exists>old \<in> set (m_slave_status s). same_master old r))
          \<and> (distinct (map (\<lambda>old. (master_host old, master_port old)) (m_slave_status s))
               \<and> slave_io_running r = SLAVE_IO_CONNECTING \<longrightarrow>
               (seen_connected r \<longleftrightarrow>
                  (\<exists>old \<in> set (m_slave_status s).
                      same_master old r \<and> seen_connected old
                      \<and> master_server_id old = master_server_id r)))"
proof -
  from update_slave_status_ok [OF assms(1)] obtain res :: QueryResult and s1 c a where
    new: "m_slave_status (snd (snd (update_slave_status ext errmsg s)))
            = build_rows ext s1 c a [] (result_rows res)"
    and old: "m_slave_status s1 = m_slave_status s"
    by iprover
  from assms(2) new have i: "i < length (result_rows res)"
    by (simp add: build_rows_length)
  let ?r = "build_row ext s1 c a i (result_rows res ! i)"
  let ?prev = "row_consulted (m_slave_status s) ?r i"
  have row: "m_slave_status (snd (snd (update_slave_status ext errmsg s))) ! i = ?r"
    using build_rows_nth_new [OF i, of ext s1 c a "[]"] new by simp
  have look: "sstatus_find_previous_row s1 ?r i = ?prev"
    by (simp add: find_previous_row_consulted old)
  have yes: "slave_io_running ?r = SLAVE_IO_YES \<longrightarrow> seen_connected ?r"
    and no: "slave_io_running ?r = SLAVE_IO_NO \<longrightarrow> \<not> seen_connected ?r"
    and connecting: "slave_io_running ?r = SLAVE_IO_CONNECTING \<longrightarrow>
               (seen_connected ?r \<longleftrightarrow>
                  (\<exists>old. ?prev = Some old \<and> seen_connected old
                     \<and> master_server_id old = master_server_id ?r))"
    using build_row_seen_connected [of ext s1 c a i "result_rows res ! i"]
    by (simp_all add: Let_def look)
  have none: "?prev = None \<longleftrightarrow> \<not> (\<exists>old \<in> set (m_slave_status s). same_master old ?r)"
    by (rule row_consulted_None)
  have unique: "distinct (map (\<lambda>old. (master_host old, master_port old)) (m_slave_status s))
               \<and> slave_io_running ?r = SLAVE_IO_CONNECTING \<longrightarrow>
               (seen_connected ?r \<longleftrightarrow>
                  (\<exists>old \<in> set (m_slave_status s).
                      same_master old ?r \<and> seen_connected old
                      \<and> master_server_id old = master_server_id ?r))"
  proof (intro impI)
    assume h: "distinct (map (\<lambda>old. (master_host old, master_port old)) (m_slave_status s))
               \<and> slave_io_running ?r = SLAVE_IO_CONNECTING"
    show "seen_connected ?r \<longleftrightarrow>
            (\<exists>old \<in> set (m_slave_status s).
                same_master old ?r \<and> seen_connected old
                \<and> master_server_id old = master_server_id ?r)"
    proof
      assume "seen_connected ?r"
      with connecting h obtain old where o: "?prev = Some old" "seen_connected old"
        "master_server_id old = master_server_id ?r" by auto
      from row_consulted_Some [OF o(1)] o(2,3)
      show "\<exists>old \<in> set (m_slave_status s).
                same_master old ?r \<and> seen_connected old
                \<and> master_server_id old = master_server_id ?r" by auto
    next
      assume "\<exists>old \<in> set (m_slave_status s).
                same_master old ?r \<and> seen_connected old
                \<and> master_server_id old = master_server_id ?r"
      then obtain other where ot: "other \<in> set (m_slave_status s)" "same_master other ?r"
        "seen_connected other" "master_server_id other = master_server_id ?r" by auto
      with none obtain old where p: "?prev = Some old" by (cases ?prev) auto
      from h have d: "distinct (map (\<lambda>old. (master_host old, master_port old)) (m_slave_status s))"
        by simp
      from row_consulted_unique [OF d p ot(1,2)] have "other = old" .
      with p ot(3,4) connecting h show "seen_connected ?r" by auto
    qed
  qed
  show ?thesis
    unfolding Let_def row using yes no connecting none unique by blast
qed

text \<open>
  Witness for C3: the previous array has one connection, to 10.0.0.1:3306 with master
  id 1, that was seen connected; the new row for it is CONNECTING with the same id and
  keeps \<open>seen_connected\<close>.
\<close>

theorem seen_connected_of_new_rows_witness:
  "fst (update_slave_status
          (fx_externals (\<lambda>k q. fx_reply (Some (fx_result
             [fx_row ''10.0.0.1'' 3306 ''Connecting'' ''Yes'' 1 ''a'']))))
          [] (fx_server [fx_conn ''a'' ''10.0.0.1'' 3306 1 True] False))
   \<and> distinct (map (\<lambda>old. (master_host old, master_port old))
        (m_slave_status (fx_server [fx_conn ''a'' ''10.0.0.1'' 3306 1 True] False)))
   \<and> slave_io_running (m_slave_status (snd (snd (update_slave_status
          (fx_externals (\<lambda>k q. fx_reply (Some (fx_result
             [fx_row ''10.0.0.1'' 3306 ''Connecting'' ''Yes'' 1 ''a'']))))
          [] (fx_server [fx_conn ''a'' ''10.0.0.1'' 3306 1 True] False)))) ! 0) = SLAVE_IO_CONNECTING
   \<and> seen_connected (m_slave_status (snd (snd (update_slave_status
          (fx_externals (\<lambda>k q. fx_reply (Some (fx_result
             [fx_row ''10.0.0.1'' 3306 ''Connecting'' ''Yes'' 1 ''a'']))))
          [] (fx_server [fx_conn ''a'' ''10.0.0.1'' 3306 1 True] False)))) ! 0)"
proof -
  let ?E = "fx_externals (\<lambda>k q. fx_reply (Some (fx_result
             [fx_row ''10.0.0.1'' 3306 ''Connecting'' ''Yes'' 1 ''a''])))"
  let ?S = "fx_server [fx_conn ''a'' ''10.0.0.1'' 3306 1 True] False"
  let ?r = "m_slave_status (snd (snd (update_slave_status ?E [] ?S))) ! 0"
  have h: "fst (update_slave_status ?E [] ?S)"
    by (simp add: fx_defs read_defs)
  have l: "0 < length (m_slave_status (snd (snd (update_slave_status ?E [] ?S))))"
    by (simp add: fx_defs read_defs)
  have io: "slave_io_running ?r = SLAVE_IO_CONNECTING"
    by (simp add: fx_defs read_defs)
  have host: "master_host ?r = ''10.0.0.1''" and port: "master_port ?r = 3306"
    and mid: "master_server_id ?r = 1"
    by (simp_all add: fx_defs read_defs)
  have olds: "m_slave_status ?S = [fx_conn ''a'' ''10.0.0.1'' 3306 1 True]"
    by (simp add: fx_server_def)
  have d: "distinct (map (\<lambda>old. (master_host old, master_port old)) (m_slave_status ?S))"
    by (simp add: olds)
  have old: "same_master (fx_conn ''a'' ''10.0.0.1'' 3306 1 True) ?r"
    "seen_connected (fx_conn ''a'' ''10.0.0.1'' 3306 1 True)"
    "master_server_id (fx_conn ''a'' ''10.0.0.1'' 3306 1 True) = master_server_id ?r"
    by (simp_all add: same_master_def host port mid) (simp_all add: fx_conn_def)
  have consulted: "row_consulted (m_slave_status ?S) ?r 0
                     = Some (fx_conn ''a'' ''10.0.0.1'' 3306 1 True)"
    unfolding olds row_consulted_def using old(1) by simp
  from seen_connected_of_new_rows [OF h l] have "seen_connected ?r"
    unfolding Let_def consulted using io old(2,3) by simp
  with h d io show ?thesis by simp
qed

text \<open>
  Counterexample to C3 as stated: the previous array has two connections to
  10.0.0.1:3306 with master id 1, the first never seen connected, the second seen
  connected. The new row at index 0 is CONNECTING to the same host and port with the
  same id. A previous row with its host and port that was seen connected and has its id
  exists, yet the row consulted is the first one and the new row has no
  \<open>seen_connected\<close>.
\<close>

theorem seen_connected_consults_one_row:
  "fst (update_slave_status
          (fx_externals (\<lambda>k q. fx_reply (Some (fx_result
             [fx_row ''10.0.0.1'' 3306 ''Connecting'' ''Yes'' 1 ''a'']))))
          [] (fx_server [fx_unseen_conn ''a'' ''10.0.0.1'' 3306 1,
                         fx_conn ''b'' ''10.0.0.1'' 3306 1 True] False))
   \<and> slave_io_running (m_slave_status (snd (snd (update_slave_status
          (fx_externals (\<lambda>k q. fx_reply (Some (fx_result
             [fx_row ''10.0.0.1'' 3306 ''Connecting'' ''Yes'' 1 ''a'']))))
          [] (fx_server [fx_unseen_conn ''a'' ''10.0.0.1'' 3306 1,
                         fx_conn ''b'' ''10.0.0.1'' 3306 1 True] False)))) ! 0)
       = SLAVE_IO_CONNECTING
   \<and> map (\<lambda>r. (master_host r, master_port r, master_server_id r))
        (m_slave_status (snd (snd (update_slave_status
          (fx_externals (\<lambda>k q. fx_reply (Some (fx_result
             [fx_row ''10.0.0.1'' 3306 ''Connecting'' ''Yes'' 1 ''a'']))))
          [] (fx_server [fx_unseen_conn ''a'' ''10.0.0.1'' 3306 1,
                         fx_conn ''b'' ''10.0.0.1'' 3306 1 True] False)))))
       = [(''10.0.0.1'', 3306, 1)]
   \<and> (master_host (fx_conn ''b'' ''10.0.0.1'' 3306 1 True),
       master_port (fx_conn ''b'' ''10.0.0.1'' 3306 1 True),
       master_server_id (fx_conn ''b'' ''10.0.0.1'' 3306 1 True)) = (''10.0.0.1'', 3306, 1)
   \<and> seen_connected (fx_conn ''b'' ''10.0.0.1'' 3306 1 True)
   \<and> \<not> seen_connected (m_slave_status (snd (snd (update_slave_status
          (fx_externals (\<lambda>k q. fx_reply (Some (fx_result
             [fx_row ''10.0.0.1'' 3306 ''Connecting'' ''Yes'' 1 ''a'']))))
          [] (fx_server [fx_unseen_conn ''a'' ''10.0.0.1'' 3306 1,
                         fx_conn ''b'' ''10.0.0.1'' 3306 1 True] False)))) ! 0)"
  by (simp add: fx_defs fx_unseen_conn_def read_defs)

text \<open>
  Claim C10. After a successful \<open>update_slave_status\<close> the \<open>master_id\<close> of the shared
  server record is the master server id of the first row of the new array, or -1 when
  the array is empty; after a failed one it is what it was.
\<close>

theorem update_slave_status_master_id:
  "(fst (update_slave_status ext errmsg s) \<longrightarrow>
      server_master_id (snd (snd (update_slave_status ext errmsg s))) =
        (case m_slave_status (snd (snd (update_slave_status ext errmsg s))) of
           [] \<Rightarrow> -1 | row # rest \<Rightarrow> master_server_id row))
   \<and> (\<not> fst (update_slave_status ext errmsg s) \<longrightarrow>
      server_master_id (snd (snd (update_slave_status ext errmsg s))) = server_master_id s)"
proof -
  obtain ok e' s' where d: "do_show_slave_status ext errmsg s = (ok, e', s')"
    by (cases "do_show_slave_status ext errmsg s") auto
  show ?thesis
  proof (cases ok)
    case True
    with d show ?thesis
      by (simp add: update_slave_status_def SERVER_ID_UNKNOWN_def split: list.splits)
  next
    case False
    with d have "server_master_id s' = server_master_id s"
      by (auto simp: do_show_slave_status_def split: if_splits dest: read_slave_status_fail)
    with d False show ?thesis
      by (simp add: update_slave_status_def)
  qed
qed

text \<open>
  Witness for C10: a successful read of one row with master id 1, and a read that fails
  with a lost connection and leaves the \<open>master_id\<close> 7 in place.
\<close>

theorem update_slave_status_master_id_witness:
  "fst (update_slave_status
          (fx_externals (\<lambda>k q. fx_reply (Some (fx_result
             [fx_row ''10.0.0.1'' 3306 ''Yes'' ''Yes'' 1 ''a'']))))
          [] (fx_server [] False))
   \<and> server_master_id (snd (snd (update_slave_status
          (fx_externals (\<lambda>k q. fx_reply (Some (fx_result
             [fx_row ''10.0.0.1'' 3306 ''Yes'' ''Yes'' 1 ''a'']))))
          [] (fx_server [] False)))) = 1
   \<and> \<not> fst (update_slave_status (fx_externals (\<lambda>k q. fx_failure 2013 ''Lost connection'' 5))
          [] (fx_server [] False))
   \<and> server_master_id (snd (snd (update_slave_status
          (fx_externals (\<lambda>k q. fx_failure 2013 ''Lost connection'' 5)) [] (fx_server [] False)))) = 7"
proof -
  let ?E = "fx_externals (\<lambda>k q. fx_reply (Some (fx_result
             [fx_row ''10.0.0.1'' 3306 ''Yes'' ''Yes'' 1 ''a''])))"
  let ?F = "fx_externals (\<lambda>k q. fx_failure 2013 ''Lost connection'' 5)"
  have h: "fst (update_slave_status ?E [] (fx_server [] False))"
    by (simp add: fx_defs read_defs)
  have rows: "map master_server_id
                (m_slave_status (snd (snd (update_slave_status ?E [] (fx_server [] False))))) = [1]"
    by (simp add: fx_defs read_defs)
  have f: "\<not> fst (update_slave_status ?F [] (fx_server [] False))"
    by (simp add: fx_defs read_defs)
  have m: "server_master_id (fx_server [] False) = 7"
    by (simp add: fx_server_def)
  from update_slave_status_master_id [of ?E "[]" "fx_server [] False"] update_slave_status_master_id [of ?F "[]" "fx_server [] False"]
       h rows f m
  show ?thesis
    by (auto split: list.splits)
qed


lemma read_slave_status_reject:
  "\<not> r_ok (backend ext (length (sent s)) q)
     \<or> (case r_result (backend ext (length (sent s)) q) of
           None \<Rightarrow> True | Some (res :: QueryResult) \<Rightarrow> get_col_count res < columns) \<Longrightarrow>
   \<not> fst (read_slave_status ext columns a q errmsg s)"
  unfolding read_slave_status_def
  by (auto simp: Let_def split: prod.splits sum.splits option.splits
           dest!: execute_query_Inr)

text \<open>
  Claim C6, as the code has it. With the gtid capability or on a binlog router,
  \<open>do_show_slave_status\<close> sends \<open>SHOW ALL SLAVES STATUS;\<close> and expects 42 columns;
  otherwise, with basic support, it sends \<open>SHOW SLAVE STATUS;\<close> and expects 40; with
  neither it sends nothing and fails. When the query fails or the result has fewer
  columns than expected the call fails, and whenever the call fails the cached array
  \<open>m_slave_status\<close> is left as it was.
\<close>

theorem do_show_slave_status_query_and_failure:
  "let all_slaves_status = (gtid (m_capabilities s) \<or> m_srv_type s = BINLOG_ROUTER);
       query = (if all_slaves_status then ''SHOW ALL SLAVES STATUS;'' else ''SHOW SLAVE STATUS;'');
       columns = (if all_slaves_status then 42 else 40);
       r = backend ext (length (sent s)) query;
       res = do_show_slave_status ext errmsg s
   in (if all_slaves_status \<or> basic_support (m_capabilities s)
       then sent (snd (snd res)) = sent s @ [(clock s, query)]
            \<and> (\<not> r_ok r
                 \<or> (case r_result r of None \<Rightarrow> True
                     | Some result \<Rightarrow> get_col_count result < columns)
                 \<longrightarrow> \<not> fst res)
       else sent (snd (snd res)) = sent s \<and> \<not> fst res)
      \<and> (\<not> fst res \<longrightarrow> m_slave_status (snd (snd res)) = m_slave_status s)"
proof -
  obtain ok e' s' where d: "do_show_slave_status ext errmsg s = (ok, e', s')"
    by (cases "do_show_slave_status ext errmsg s") auto
  have unchanged: "\<not> ok \<longrightarrow> m_slave_status s' = m_slave_status s"
    using d by (auto simp: do_show_slave_status_def split: if_splits dest: read_slave_status_fail)
  show ?thesis
  proof (cases "gtid (m_capabilities s) \<or> m_srv_type s = BINLOG_ROUTER")
    case True
    then have r: "read_slave_status ext 42 True ''SHOW ALL SLAVES STATUS;'' errmsg s = (ok, e', s')"
      using d by (simp add: do_show_slave_status_def)
    from read_slave_status_sent [OF r]
         read_slave_status_reject [of ext s "''SHOW ALL SLAVES STATUS;''" 42 True errmsg]
         r unchanged True d
    show ?thesis by (simp add: Let_def)
  next
    case False
    note nogtid = this
    show ?thesis
    proof (cases "basic_support (m_capabilities s)")
      case True
      then have r: "read_slave_status ext 40 False ''SHOW SLAVE STATUS;'' errmsg s = (ok, e', s')"
        using d nogtid by (simp add: do_show_slave_status_def)
      from read_slave_status_sent [OF r]
           read_slave_status_reject [of ext s "''SHOW SLAVE STATUS;''" 40 False errmsg]
           r unchanged True nogtid d
      show ?thesis by (simp add: Let_def)
    next
      case False
      with nogtid d show ?thesis
        by (simp add: do_show_slave_status_def Let_def)
    qed
  qed
qed

text \<open>
  Witness for C6: a gtid-capable server gets a result of 41 columns; the call fails after
  sending \<open>SHOW ALL SLAVES STATUS;\<close> and the cached array is unchanged.
\<close>

theorem do_show_slave_status_query_and_failure_witness:
  "\<not> fst (do_show_slave_status
            (fx_externals (\<lambda>k q. fx_reply (Some ((fx_result [])\<lparr>get_col_count := 41\<rparr>))))
            [] (fx_server [fx_conn ''a'' ''10.0.0.1'' 3306 1 True] False))
   \<and> sent (snd (snd (do_show_slave_status
            (fx_externals (\<lambda>k q. fx_reply (Some ((fx_result [])\<lparr>get_col_count := 41\<rparr>))))
            [] (fx_server [fx_conn ''a'' ''10.0.0.1'' 3306 1 True] False))))
       = [(0, ''SHOW ALL SLAVES STATUS;'')]
   \<and> m_slave_status (snd (snd (do_show_slave_status
            (fx_externals (\<lambda>k q. fx_reply (Some ((fx_result [])\<lparr>get_col_count := 41\<rparr>))))
            [] (fx_server [fx_conn ''a'' ''10.0.0.1'' 3306 1 True] False))))
       = [fx_conn ''a'' ''10.0.0.1'' 3306 1 True]"
  using do_show_slave_status_query_and_failure [of "fx_server [fx_conn ''a'' ''10.0.0.1'' 3306 1 True] False"
                   "fx_externals (\<lambda>k q. fx_reply (Some ((fx_result [])\<lparr>get_col_count := 41\<rparr>)))"
                   "[]"]
  by (simp add: Let_def fx_server_def fx_externals_def fx_reply_def fx_result_def)

text \<open>
  Counterexample to C6 as stated: a server with neither the gtid capability nor basic
  support, not a binlog router. The claim has \<open>SHOW SLAVE STATUS\<close> issued; the code
  sends no statement at all.
\<close>

theorem do_show_slave_status_without_support:
  "\<not> (gtid (m_capabilities ((fx_server [] False)\<lparr>m_capabilities :=
          \<lparr>basic_support = False, gtid = False, max_statement_time = False\<rparr>\<rparr>))
        \<or> m_srv_type ((fx_server [] False)\<lparr>m_capabilities :=
          \<lparr>basic_support = False, gtid = False, max_statement_time = False\<rparr>\<rparr>) = BINLOG_ROUTER)
   \<and> sent (snd (snd (do_show_slave_status
            (fx_externals (\<lambda>k q. fx_reply (Some (fx_result [])))) []
            ((fx_server [] False)\<lparr>m_capabilities :=
               \<lparr>basic_support = False, gtid = False, max_statement_time = False\<rparr>\<rparr>)))) = []"
  by (simp add: fx_server_def do_show_slave_status_def)

section \<open>Properties of the retry loop\<close>

lemma loop_step:
  "execute_cmd_loop ext command hp limit timer errmsg s =
     (let a = execute_cmd_attempt ext command hp limit timer s
      in if \<not> fst a \<and> fst (snd a)
         then execute_cmd_loop ext command hp limit timer errmsg (snd (snd (snd a)))
         else (fst a, if \<not> fst a then fst (snd (snd a)) else errmsg, snd (snd (snd a))))"
  by (subst execute_cmd_loop.simps) (simp add: Let_def split: prod.splits)

lemma no_retry_eq:
  "execute_cmd_no_retry ext cmd errmsg errnum s =
     ((\<not> attempt_failed (backend ext (length (sent s)) cmd),
       if attempt_failed (backend ext (length (sent s)) cmd)
       then failure_message cmd (server_name s) (backend ext (length (sent s)) cmd) else errmsg,
       if r_ok (backend ext (length (sent s)) cmd) then errnum
       else r_errno (backend ext (length (sent s)) cmd)),
      after_send ext cmd s)"
  by (simp add: execute_cmd_no_retry_def execute_cmd_ex_def mysql_send_def attempt_failed_def
                failure_message_def after_send_def Let_def split: option.splits)

lemma after_send_fields [simp]:
  "sent (after_send ext q s) = sent s @ [(clock s, q)]"
  "clock (after_send ext q s) = clock s + int (r_took (backend ext (length (sent s)) q))"
  "sleeps (after_send ext q s) = sleeps s"
  "server_name (after_send ext q s) = server_name s"
  by (simp_all add: after_send_def)

lemma attempt_eq:
  "execute_cmd_attempt ext command hp limit timer s =
     (let r = backend ext (length (sent s)) command;
          s1 = after_send ext command s;
          remaining = limit - (clock s1 - timer);
          keep_trying = (0 < remaining \<and> retryable ext hp (attempt_errno r));
          error_msg = (if attempt_failed r then failure_message command (server_name s) r else [])
      in if attempt_failed r \<and> keep_trying
         then (False, True, error_msg,
               (if clock s1 - clock s < seconds 1
                then sleep_for (min remaining (seconds 1 - (clock s1 - clock s)))
                else (\<lambda>x. x))
                 (mxs_log LOG_WARNING
                    (if mxs_mysql_is_net_error ext (attempt_errno r)
                     then error_msg @ '' '' @ ''Retrying with '' @ printf_secs ext remaining
                          @ '' seconds left.''
                     else ''Query '' @ quoted command @ '' timed out on '' @ quoted (server_name s)
                          @ ''. '' @ ''Retrying with '' @ printf_secs ext remaining
                          @ '' seconds left.'') s1))
         else (\<not> attempt_failed r, keep_trying, error_msg, s1))"
  by (auto simp add: execute_cmd_attempt_def no_retry_eq Let_def retryable_def attempt_errno_def
                     min_query_time_def)

lemma attempt_fst:
  "fst (execute_cmd_attempt ext command hp limit timer s)
     = (\<not> attempt_failed (backend ext (length (sent s)) command))"
  by (simp add: attempt_eq Let_def)

lemma attempt_keep:
  "fst (snd (execute_cmd_attempt ext command hp limit timer s))
     = (let r = backend ext (length (sent s)) command
        in 0 < limit - (clock s + int (r_took r) - timer) \<and> retryable ext hp (attempt_errno r))"
  by (simp add: attempt_eq Let_def)




lemma attempt_msg:
  "attempt_failed (backend ext (length (sent s)) command) \<Longrightarrow>
     fst (snd (snd (execute_cmd_attempt ext command hp limit timer s)))
       = failure_message command (server_name s) (backend ext (length (sent s)) command)"
  by (simp add: attempt_eq Let_def)

lemma attempt_last_state:
  "\<not> (attempt_failed (backend ext (length (sent s)) command)
       \<and> 0 < limit - (clock s + int (r_took (backend ext (length (sent s)) command)) - timer)
       \<and> retryable ext hp (attempt_errno (backend ext (length (sent s)) command))) \<Longrightarrow>
     snd (snd (snd (execute_cmd_attempt ext command hp limit timer s))) = after_send ext command s"
  by (auto simp add: attempt_eq Let_def)

lemma loop_unfold:
  assumes "execute_cmd_attempt ext command hp limit timer s = (ok, kt, msg, s')"
  shows "execute_cmd_loop ext command hp limit timer errmsg s =
           (if \<not> ok \<and> kt then execute_cmd_loop ext command hp limit timer errmsg s'
            else (ok, if \<not> ok then msg else errmsg, s'))"
  using assms by (subst execute_cmd_loop.simps) simp








lemma loop_first_ok:
  assumes "\<not> attempt_failed (backend ext (length (sent s)) command)"
  shows "execute_cmd_loop ext command hp limit timer errmsg s
           = (True, errmsg, after_send ext command s)"
  using assms attempt_last_state [of ext s command limit timer hp]
  by (subst loop_step) (simp add: Let_def attempt_fst)

lemma loop_first_fatal:
  assumes "attempt_failed (backend ext (length (sent s)) command)"
    and "\<not> retryable ext hp (attempt_errno (backend ext (length (sent s)) command))"
  shows "execute_cmd_loop ext command hp limit timer errmsg s
           = (False, failure_message command (server_name s) (backend ext (length (sent s)) command),
              after_send ext command s)"
  using assms attempt_last_state [of ext s command limit timer hp]
  by (subst loop_step) (simp add: Let_def attempt_fst attempt_keep attempt_msg)

lemma time_limit_first_ok:
  assumes "\<not> attempt_failed (backend ext (length (sent s)) (max_stmt_time_prefix s @ cmd))"
  shows "execute_cmd_time_limit ext cmd limit errmsg s
           = (True, errmsg, after_send ext (max_stmt_time_prefix s @ cmd) s)"
  using loop_first_ok [OF assms]
  by (simp add: execute_cmd_time_limit_def max_stmt_time_prefix_def Let_def)

lemma time_limit_first_fatal:
  assumes "attempt_failed (backend ext (length (sent s)) (max_stmt_time_prefix s @ cmd))"
    and "\<not> retryable ext (max_stmt_time_prefix s \<noteq> [])
            (attempt_errno (backend ext (length (sent s)) (max_stmt_time_prefix s @ cmd)))"
  shows "execute_cmd_time_limit ext cmd limit errmsg s
           = (False,
              failure_message (max_stmt_time_prefix s @ cmd) (server_name s)
                (backend ext (length (sent s)) (max_stmt_time_prefix s @ cmd)),
              after_send ext (max_stmt_time_prefix s @ cmd) s)"
  using loop_first_fatal [OF assms]
  by (simp add: execute_cmd_time_limit_def max_stmt_time_prefix_def Let_def)

lemmas cmd_eval = time_limit_first_ok time_limit_first_fatal attempt_failed_def attempt_errno_def
  retryable_def max_stmt_time_prefix_def after_send_def stop_slave_conn_def
  PRINT_MXS_JSON_ERROR_def ER_STATEMENT_TIMEOUT_def Let_def





section \<open>Properties of removing, creating and redirecting slave connections\<close>

lemma PRINT_frame [simp]:
  "m_slave_status (PRINT_MXS_JSON_ERROR m s) = m_slave_status s"
  by (simp add: PRINT_MXS_JSON_ERROR_def mxs_log_def)

text \<open>
  Claim C8. When \<open>remove_slave_conns\<close> returns success, every connection was stopped
  and reset, the status refresh succeeded, the array of the server is the refreshed
  one, and no row of it has the name of a removed connection. When the refresh went
  through and a removed name is still among its rows, the operation fails.
\<close>

theorem remove_slave_conns_names_gone:
  "let res = remove_slave_conns ext conns op s;
       stopped = remove_conns_loop ext conns (clock s) op s;
       refreshed = do_show_slave_status ext [] (snd (snd (snd stopped)))
   in (fst res \<longrightarrow>
         \<not> fst stopped \<and> fst refreshed
         \<and> m_slave_status (snd (snd res)) = m_slave_status (snd (snd refreshed))
         \<and> (\<forall>removed \<in> set conns. \<forall>row \<in> set (m_slave_status (snd (snd res))).
               name row \<noteq> name removed))
      \<and> (\<not> fst stopped \<and> fst refreshed
          \<and> (\<exists>removed \<in> set conns. \<exists>row \<in> set (m_slave_status (snd (snd refreshed))).
                name row = name removed)
          \<longrightarrow> \<not> fst res)"
proof -
  obtain stop_err timer op1 s1 where L: "remove_conns_loop ext conns (clock s) op s = (stop_err, timer, op1, s1)"
    by (cases "remove_conns_loop ext conns (clock s) op s") auto
  obtain ok e s2 where D: "do_show_slave_status ext [] s1 = (ok, e, s2)"
    by (cases "do_show_slave_status ext [] s1") auto
  show ?thesis
    using L D
    apply (cases stop_err; cases ok)
       apply (auto simp: remove_slave_conns_def Let_def filter_empty_conv)
    apply (metis imageI)
    done
qed

text \<open>
  Witness for C8: the connection \<open>a\<close> is removed from a server whose backend accepts
  the commands and then reports no slave connection.
\<close>

theorem remove_slave_conns_names_gone_witness:
  "fst (remove_slave_conns (fx_externals fx_removal_backend)
          [fx_conn ''a'' ''10.0.0.1'' 3306 1 True] fx_op
          (fx_server [fx_conn ''a'' ''10.0.0.1'' 3306 1 True] False))
   \<and> m_slave_status (snd (snd (remove_slave_conns (fx_externals fx_removal_backend)
          [fx_conn ''a'' ''10.0.0.1'' 3306 1 True] fx_op
          (fx_server [fx_conn ''a'' ''10.0.0.1'' 3306 1 True] False)))) = []"
proof -
  let ?E = "fx_externals fx_removal_backend"
  let ?S = "fx_server [fx_conn ''a'' ''10.0.0.1'' 3306 1 True] False"
  have ok: "fst (remove_slave_conns ?E [fx_conn ''a'' ''10.0.0.1'' 3306 1 True] fx_op ?S)"
    by (simp add: remove_slave_conns_def cmd_eval read_defs fx_defs fx_removal_backend_def fx_op_def)
  have rows: "map name (m_slave_status (snd (snd (remove_slave_conns ?E
            [fx_conn ''a'' ''10.0.0.1'' 3306 1 True] fx_op ?S)))) = []"
    by (simp add: remove_slave_conns_def cmd_eval read_defs fx_defs fx_removal_backend_def fx_op_def)
  from remove_slave_conns_names_gone [of ?E "[fx_conn ''a'' ''10.0.0.1'' 3306 1 True]" fx_op ?S] ok rows
  show ?thesis by simp
qed


lemma show_int_values:
  "show_int 10 = ''10''" "show_int 3306 = ''3306''" "show_int 1198 = ''1198''"
  by code_simp+

text \<open>
  Claim C1 fails on the code. The backend rejects \<open>CHANGE MASTER\<close> with an error that
  is not retried. The error message of the attempt quotes the whole command, password
  included; \<open>create_start_slave\<close> writes it to the log, and
  \<open>redirect_existing_slave_conn\<close> to the log and to the JSON error channel. The source
  says so itself at both places ("This may currently print out passwords"), while
  \<open>generate_change_master_cmd\<close> hides the password in its own debug message.
\<close>

theorem change_master_failure_shows_password:
  "occurs_in ''s3cret''
     (snd (last (log_sink (snd (snd (create_start_slave
              (fx_externals (\<lambda>k q. fx_running_slave))
              (fx_conn ''a'' ''10.0.0.1'' 3306 1 True) fx_op (fx_server [] False)))))))
   \<and> occurs_in ''s3cret''
     (last (json_errors (snd (snd (redirect_existing_slave_conn
              (fx_externals (\<lambda>k q. if k = 0 then fx_reply None else fx_running_slave))
              (fx_conn ''a'' ''10.0.0.1'' 3306 1 True)
              ((fx_server [] False)\<lparr>server_address := ''10.0.0.3''\<rparr>)
              fx_op (fx_server [] False))))))
   \<and> replication_password fx_op = ''s3cret''"
  by (simp add: create_start_slave_def redirect_existing_slave_conn_def
        generate_change_master_cmd_def MASTER_PW_def cmd_eval
        failure_message_def quoted_def mxs_log_def
        fx_externals_def fx_running_slave_def fx_failure_def fx_reply_def fx_server_def fx_op_def
        fx_conn_def SlaveStatus_new_def show_int_values)

section \<open>What command execution leaves alone\<close>

lemma same_server_refl [simp]: "same_server s s"
  by (simp add: same_server_def)

lemma same_server_trans: "same_server s s1 \<Longrightarrow> same_server s1 s2 \<Longrightarrow> same_server s s2"
  by (simp add: same_server_def)

lemma same_server_fields:
  assumes "same_server s s'"
  shows "json_errors s' = json_errors s" "m_slave_status s' = m_slave_status s"
    "m_server_id s' = m_server_id s" "server_name s' = server_name s"
    "server_address s' = server_address s" "server_port s' = server_port s"
    "m_capabilities s' = m_capabilities s" "connector_timeout s' = connector_timeout s"
    "m_srv_type s' = m_srv_type s" "m_rpl_settings s' = m_rpl_settings s"
    "m_gtid_current_pos s' = m_gtid_current_pos s" "m_gtid_binlog_pos s' = m_gtid_binlog_pos s"
    "m_topology_changed s' = m_topology_changed s" "server_master_id s' = server_master_id s"
  using assms by (simp_all add: same_server_def)

lemma same_server_steps [simp]:
  "same_server s (after_send ext q s)"
  "same_server s (mxs_log lvl m s)"
  "same_server s (sleep_for d s)"
  by (simp_all add: same_server_def after_send_def mxs_log_def sleep_for_def)

lemma attempt_same_server:
  "same_server s (snd (snd (snd (execute_cmd_attempt ext command hp limit timer s))))"
  by (simp add: attempt_eq Let_def same_server_def after_send_def mxs_log_def sleep_for_def)

lemma loop_same_server:
  "same_server s (snd (snd (execute_cmd_loop ext command hp limit timer errmsg s)))"
proof (induction ext command hp limit timer errmsg s rule: execute_cmd_loop.induct)
  case (1 ext command hp limit timer errmsg s)
  obtain ok kt msg s' where A: "execute_cmd_attempt ext command hp limit timer s = (ok, kt, msg, s')"
    by (cases "execute_cmd_attempt ext command hp limit timer s") auto
  have s': "same_server s s'"
    using attempt_same_server [of s ext command hp limit timer] A by simp
  show ?case
  proof (cases "\<not> ok \<and> kt")
    case True
    from "1.IH" [OF A [symmetric] refl refl True] s' True show ?thesis
      by (auto simp add: loop_unfold [OF A] intro: same_server_trans)
  next
    case False
    then show ?thesis
      using s' by (auto simp add: loop_unfold [OF A])
  qed
qed

lemma time_limit_same_server:
  "same_server s (snd (snd (execute_cmd_time_limit ext cmd limit errmsg s)))"
  by (simp add: execute_cmd_time_limit_def Let_def loop_same_server)



section \<open>Properties of kicking out super-users\<close>

lemma PRINT_json [simp]:
  "json_errors (PRINT_MXS_JSON_ERROR m s) = json_errors s @ [m]"
  "log_sink (PRINT_MXS_JSON_ERROR m s) = log_sink s @ [(LOG_ERROR, m)]"
  by (simp_all add: PRINT_MXS_JSON_ERROR_def mxs_log_def)

lemma mxs_log_json [simp]:
  "json_errors (mxs_log lvl m s) = json_errors s"
  "log_sink (mxs_log lvl m s) = log_sink s @ [(lvl, m)]"
  by (simp_all add: mxs_log_def)








section \<open>Properties of waiting for a GTID position\<close>



lemma sleep_for_effects [simp]:
  "sent (sleep_for d s) = sent s"
  "sleeps (sleep_for d s) = sleeps s @ [(clock s, d)]"
  "clock (sleep_for d s) = clock s + max 0 d"
  by (simp_all add: sleep_for_def)

lemma PRINT_effects [simp]:
  "sent (PRINT_MXS_JSON_ERROR m s) = sent s"
  "sleeps (PRINT_MXS_JSON_ERROR m s) = sleeps s"
  "clock (PRINT_MXS_JSON_ERROR m s) = clock s"
  "m_gtid_binlog_pos (PRINT_MXS_JSON_ERROR m s) = m_gtid_binlog_pos s"
  "m_gtid_current_pos (PRINT_MXS_JSON_ERROR m s) = m_gtid_current_pos s"
  by (simp_all add: PRINT_MXS_JSON_ERROR_def mxs_log_def)







section \<open>Properties of merging slave connections\<close>

lemma fold_verdict:
  "fst (fold (\<lambda>mine (accepted, reason).
               if P mine then (False, r1) else if Q mine then (False, r2)
               else (accepted, reason)) xs (acc, r0))
     = (acc \<and> \<not> list_ex (\<lambda>mine. P mine \<or> Q mine) xs)"
  by (induction xs arbitrary: acc r0) auto

lemma conn_can_be_merged_accepts:
  "fst (conn_can_be_merged ext s conn) = merge_accepted ext s conn"
  by (auto simp add: conn_can_be_merged_def merge_accepted_def targets_self_def
                     duplicates_existing_def Let_def fold_verdict)

lemma conn_can_be_merged_same_server:
  assumes "same_server s0 s"
  shows "conn_can_be_merged ext s conn = conn_can_be_merged ext s0 conn"
  unfolding conn_can_be_merged_def
    same_server_fields(2) [OF assms] same_server_fields(3) [OF assms]
    same_server_fields(4) [OF assms] same_server_fields(5) [OF assms]
    same_server_fields(6) [OF assms]
  by (rule refl)

lemma generate_change_master_cmd_same_server:
  "same_server s (snd (generate_change_master_cmd ext op conn s))"
  by (simp add: generate_change_master_cmd_def Let_def)

lemma create_start_slave_same_server:
  "same_server s (snd (snd (create_start_slave ext conn op s)))"
proof -
  obtain cmd s0 where G: "generate_change_master_cmd ext op (conn\<lparr>owning_server := server_name s\<rparr>) s
                            = (cmd, s0)"
    by (cases "generate_change_master_cmd ext op (conn\<lparr>owning_server := server_name s\<rparr>) s") auto
  have g: "same_server s s0"
    using generate_change_master_cmd_same_server [of s ext op "conn\<lparr>owning_server := server_name s\<rparr>"] G
    by simp
  obtain ok1 e1 s1 where C: "execute_cmd_time_limit ext cmd (time_remaining op) [] s0 = (ok1, e1, s1)"
    by (cases "execute_cmd_time_limit ext cmd (time_remaining op) [] s0") auto
  have c: "same_server s0 s1"
    using time_limit_same_server [of s0 ext cmd "time_remaining op" "[]"] C by simp
  let ?op1 = "op\<lparr>time_remaining := time_remaining op - (clock s1 - clock s)\<rparr>"
  obtain ok2 e2 s2 where S: "execute_cmd_time_limit ext
        (''START SLAVE '' @ quoted (name conn) @ '';'') (time_remaining ?op1) e1 s1 = (ok2, e2, s2)"
    by (cases "execute_cmd_time_limit ext
        (''START SLAVE '' @ quoted (name conn) @ '';'') (time_remaining ?op1) e1 s1") auto
  have s: "same_server s1 s2"
    using time_limit_same_server [of s1 ext "''START SLAVE '' @ quoted (name conn) @ '';''"
             "time_remaining ?op1" e1] S by simp
  have all: "same_server s s1" "same_server s s2"
    using g c s by (auto intro: same_server_trans)
  show ?thesis
    using G C S all
    by (auto simp add: create_start_slave_def Let_def same_server_def mxs_log_def)
qed

lemma merge_loop_plan:
  "same_server s0 s \<Longrightarrow>
     merge_loop ext conns names op s = run_merge_plan ext (merge_plan ext s0 names conns) op s"
proof (induction conns arbitrary: names op s)
  case Nil
  then show ?case by simp
next
  case (Cons conn rest)
  have acc: "fst (conn_can_be_merged ext s conn) = merge_accepted ext s0 conn"
    using Cons.prems by (simp add: conn_can_be_merged_same_server conn_can_be_merged_accepts)
  show ?case
  proof (cases "merge_accepted ext s0 conn")
    case False
    have "same_server s0 (mxs_log LOG_WARNING
                (to_short_string ext conn @ '' was ignored when promoting ''
                 @ quoted (server_name s) @ '' because '' @ snd (conn_can_be_merged ext s conn)) s)"
      using Cons.prems by (simp add: same_server_def mxs_log_def)
    from Cons.IH [OF this] False acc show ?thesis by simp
  next
    case True
    note accepted = this
    show ?thesis
    proof (cases "name conn \<in> names")
      case False
      obtain ok op1 s2 where C: "create_start_slave ext conn op s = (ok, op1, s2)"
        by (cases "create_start_slave ext conn op s") auto
      have "same_server s0 s2"
        using create_start_slave_same_server [of s ext conn op] C Cons.prems
        by (auto intro: same_server_trans)
      from Cons.IH [OF this] False accepted acc C show ?thesis
        by (cases ok) (simp_all add: check_modify_conn_name_def)
    next
      case True
      note taken = this
      show ?thesis
      proof (cases "second_try conn \<in> names")
        case True
        with taken accepted acc show ?thesis
          by (simp add: check_modify_conn_name_def)
      next
        case False
        let ?s1 = "mxs_log LOG_WARNING
                     (''A slave connection with name '' @ quoted (name conn)
                      @ '' already exists on '' @ quoted (server_name s)
                      @ '', using generated name '' @ quoted (second_try conn)
                      @ '' instead.'') s"
        let ?c = "conn\<lparr>name := second_try conn\<rparr>"
        obtain ok op1 s2 where C: "create_start_slave ext ?c op ?s1 = (ok, op1, s2)"
          by (cases "create_start_slave ext ?c op ?s1") auto
        have "same_server s0 ?s1"
          using Cons.prems by (simp add: same_server_def mxs_log_def)
        then have "same_server s0 s2"
          using create_start_slave_same_server [of ?s1 ext ?c op] C
          by (auto intro: same_server_trans)
        from Cons.IH [OF this] False taken accepted acc C show ?thesis
          by (cases ok) (auto simp add: check_modify_conn_name_def)
      qed
    qed
  qed
qed

lemma planned_creations_accepted:
  "\<not> gives_up (merge_plan ext s names conns) \<Longrightarrow>
     list_all2 (\<lambda>conn created. created = conn \<or> created = conn\<lparr>name := second_try conn\<rparr>)
       (filter (merge_accepted ext s) conns)
       (planned_creations (merge_plan ext s names conns))"
  by (induction conns arbitrary: names) (auto split: if_splits)


text \<open>
  Claim C5, as the code has it. A connection is accepted for merging exactly when it
  passes the copy test, does not target the promoted server itself by id or by host and
  port, and does not duplicate one of its connections by host and port or, for a
  connection that has been seen connected, by master server id. \<open>merge_slave_conns\<close>
  carries out the plan made from these verdicts and the names taken, and succeeds when
  the plan was carried out without error. Unless the plan gives up on a name, the
  connections it creates are the accepted ones in their order, each under its own name
  or the name synthesized from host and port.
\<close>

theorem merge_slave_conns_follows_plan:
  "fst (conn_can_be_merged ext s conn)
     = (fst (should_be_copied ext conn) \<and> \<not> targets_self s conn \<and> \<not> duplicates_existing s conn)
   \<and> merge_slave_conns ext conns op s
     = (let result = run_merge_plan ext
                       (merge_plan ext s (set (map name (m_slave_status s))) conns) op s
        in (\<not> fst result, snd result))
   \<and> (\<not> gives_up (merge_plan ext s names conns) \<longrightarrow>
        list_all2 (\<lambda>conn created. created = conn \<or> created = conn\<lparr>name := second_try conn\<rparr>)
          (filter (merge_accepted ext s) conns)
          (planned_creations (merge_plan ext s names conns)))"
proof -
  have a: "fst (conn_can_be_merged ext s conn)
     = (fst (should_be_copied ext conn) \<and> \<not> targets_self s conn \<and> \<not> duplicates_existing s conn)"
    by (simp add: conn_can_be_merged_accepts merge_accepted_def)
  have b: "merge_slave_conns ext conns op s
     = (let result = run_merge_plan ext
                       (merge_plan ext s (set (map name (m_slave_status s))) conns) op s
        in (\<not> fst result, snd result))"
    using merge_loop_plan [of s s ext conns "set (map name (m_slave_status s))" op]
    by (simp add: merge_slave_conns_def Let_def split: prod.splits)
  show ?thesis
    using a b planned_creations_accepted [of ext s names conns] by blast
qed

lemmas merge_eval = merge_accepted_def targets_self_def duplicates_existing_def second_try_def
  create_start_slave_def generate_change_master_cmd_def MASTER_PW_def

text \<open>
  Witness for C5: the promoted server has a connection \<open>a\<close>; of the two connections
  to merge the first is accepted and renamed, since its name \<open>a\<close> is taken, and the
  second is ignored, since it points to the promoted server itself.
\<close>

theorem merge_slave_conns_follows_plan_witness:
  "fst (merge_slave_conns (fx_externals (\<lambda>k q. fx_reply None))
          [fx_conn ''a'' ''10.0.0.5'' 3306 5 True, fx_conn ''c'' ''10.0.0.2'' 3306 6 True] fx_op
          (fx_server [fx_conn ''a'' ''10.0.0.9'' 3306 9 True] False))
   \<and> planned_creations (merge_plan (fx_externals (\<lambda>k q. fx_reply None))
          (fx_server [fx_conn ''a'' ''10.0.0.9'' 3306 9 True] False) {''a''}
          [fx_conn ''a'' ''10.0.0.5'' 3306 5 True, fx_conn ''c'' ''10.0.0.2'' 3306 6 True])
       = [(fx_conn ''a'' ''10.0.0.5'' 3306 5 True)\<lparr>name := ''To [10.0.0.5]:3306''\<rparr>]
   \<and> length (sent (snd (snd (merge_slave_conns (fx_externals (\<lambda>k q. fx_reply None))
          [fx_conn ''a'' ''10.0.0.5'' 3306 5 True, fx_conn ''c'' ''10.0.0.2'' 3306 6 True] fx_op
          (fx_server [fx_conn ''a'' ''10.0.0.9'' 3306 9 True] False))))) = 2"
proof -
  let ?E = "fx_externals (\<lambda>k q. fx_reply None)"
  let ?P = "fx_server [fx_conn ''a'' ''10.0.0.9'' 3306 9 True] False"
  let ?c1 = "fx_conn ''a'' ''10.0.0.5'' 3306 5 True"
  let ?c2 = "fx_conn ''c'' ''10.0.0.2'' 3306 6 True"
  have names: "set (map name (m_slave_status ?P)) = {''a''}"
    by (simp add: fx_server_def fx_conn_def)
  have plan: "merge_plan ?E ?P {''a''} [?c1, ?c2]
                = [Create ?c1 (?c1\<lparr>name := ''To [10.0.0.5]:3306''\<rparr>), Ignore ?c2]"
    by (simp add: merge_eval show_int_values fx_externals_def fx_server_def fx_conn_def
                  SlaveStatus_new_def)
  have run: "\<not> fst (run_merge_plan ?E
                [Create ?c1 (?c1\<lparr>name := ''To [10.0.0.5]:3306''\<rparr>), Ignore ?c2] fx_op ?P)"
    "length (sent (snd (snd (run_merge_plan ?E
                [Create ?c1 (?c1\<lparr>name := ''To [10.0.0.5]:3306''\<rparr>), Ignore ?c2] fx_op ?P)))) = 2"
    by (simp_all add: merge_eval cmd_eval mxs_log_def fx_externals_def fx_reply_def fx_server_def
                      fx_conn_def fx_op_def SlaveStatus_new_def)
  note inst = merge_slave_conns_follows_plan [of ?E ?P ?c1 "[?c1, ?c2]" fx_op "{''a''}", unfolded names plan Let_def]
  have merged: "merge_slave_conns ?E [?c1, ?c2] fx_op ?P
                  = (\<not> fst (run_merge_plan ?E
                       [Create ?c1 (?c1\<lparr>name := ''To [10.0.0.5]:3306''\<rparr>), Ignore ?c2] fx_op ?P),
                     snd (run_merge_plan ?E
                       [Create ?c1 (?c1\<lparr>name := ''To [10.0.0.5]:3306''\<rparr>), Ignore ?c2] fx_op ?P))"
    using inst by blast
  show ?thesis
    unfolding plan merged using run by simp
qed

text \<open>
  Counterexample to C5 as stated: the promoted server has a connection with master
  server id 5 that is connecting and has not been seen connected. A connection to merge with the same
  master server id and another host is a duplicate by id in the words of the claim, yet
  it is accepted and created: \<open>CHANGE MASTER\<close> and \<open>START SLAVE\<close> are sent.
\<close>

theorem merge_slave_conns_unseen_duplicate:
  "master_server_id (hd (m_slave_status (fx_server [fx_unseen_conn ''x'' ''10.0.0.9'' 3306 5] False)))
     = master_server_id (fx_conn ''b'' ''10.0.0.5'' 3306 5 True)
   \<and> fst (conn_can_be_merged (fx_externals (\<lambda>k q. fx_reply None))
          (fx_server [fx_unseen_conn ''x'' ''10.0.0.9'' 3306 5] False)
          (fx_conn ''b'' ''10.0.0.5'' 3306 5 True))
   \<and> fst (merge_slave_conns (fx_externals (\<lambda>k q. fx_reply None))
          [fx_conn ''b'' ''10.0.0.5'' 3306 5 True] fx_op
          (fx_server [fx_unseen_conn ''x'' ''10.0.0.9'' 3306 5] False))
   \<and> length (sent (snd (snd (merge_slave_conns (fx_externals (\<lambda>k q. fx_reply None))
          [fx_conn ''b'' ''10.0.0.5'' 3306 5 True] fx_op
          (fx_server [fx_unseen_conn ''x'' ''10.0.0.9'' 3306 5] False))))) = 2"
proof -
  let ?E = "fx_externals (\<lambda>k q. fx_reply None)"
  let ?P = "fx_server [fx_unseen_conn ''x'' ''10.0.0.9'' 3306 5] False"
  let ?c = "fx_conn ''b'' ''10.0.0.5'' 3306 5 True"
  have same: "master_server_id (hd (m_slave_status ?P)) = master_server_id ?c"
    by (simp add: fx_server_def fx_conn_def fx_unseen_conn_def)
  have acc: "fst (conn_can_be_merged ?E ?P ?c)"
    by (simp add: conn_can_be_merged_accepts merge_eval fx_externals_def fx_server_def fx_conn_def
                  fx_unseen_conn_def SlaveStatus_new_def)
  have plan: "merge_plan ?E ?P (set (map name (m_slave_status ?P))) [?c] = [Create ?c ?c]"
    by (simp add: merge_eval fx_externals_def fx_server_def fx_conn_def fx_unseen_conn_def
                  SlaveStatus_new_def)
  have run: "\<not> fst (run_merge_plan ?E [Create ?c ?c] fx_op ?P)"
    "length (sent (snd (snd (run_merge_plan ?E [Create ?c ?c] fx_op ?P)))) = 2"
    by (simp_all add: merge_eval cmd_eval mxs_log_def fx_externals_def fx_reply_def fx_server_def
                      fx_conn_def fx_unseen_conn_def fx_op_def SlaveStatus_new_def)
  have m: "merge_slave_conns ?E [?c] fx_op ?P
             = (\<not> fst (run_merge_plan ?E [Create ?c ?c] fx_op ?P),
                snd (run_merge_plan ?E [Create ?c ?c] fx_op ?P))"
    using merge_loop_plan [of ?P ?P ?E "[?c]" "set (map name (m_slave_status ?P))" fx_op] plan
    by (simp add: merge_slave_conns_def split: prod.splits)
  show ?thesis
    using same acc run by (simp add: m)
qed

end
